theory Spec2Isabelle
  imports Complex_Main
begin

chapter \<open>The BRITIMP consolidator\<close>

text \<open>
  The repository holds three versions of one batch program, consolidado_v3.py,
  consolidado_v4.py and britimp_consolidado_v4.py.  Each scans agency folders for
  spreadsheets and PDFs, decides whether a document belongs to the target institution,
  classifies it, extracts ledger or inventory records, and appends them to one CSV file
  per document type and day.

  This theory embeds the parts of the three versions that the specification speaks
  about: the numeric normaliser, the consolidated writer, the authenticity gate, the text
  previewer and the statement extractors.  Every definition is a translation of one source
  function and keeps its name; where two versions differ, each has its own definition,
  with the version in the name.  All definitions come first, the facts about them after.
\<close>

section \<open>Text primitives\<close>

text \<open>
  Python strings are modelled as \<^typ>\<open>string\<close>: a list of characters, each a code
  point below 256.  The sources only ever test for ASCII letters and digits, and for the
  no-break space U+00A0, which \<open>NUM_SANITIZER\<close> names explicitly.  Case conversion
  (\<open>str.upper\<close>) is modelled on ASCII text.
\<close>

text \<open>The no-break space, code point 160.\<close>

definition nbsp :: char where
  "nbsp = Char False False False False False True False True"

definition is_digit :: "char \<Rightarrow> bool" where
  "is_digit c = (48 \<le> (of_char c :: nat) \<and> (of_char c :: nat) \<le> 57)"

text \<open>\<open>str.isspace\<close> on code points below 256.\<close>

definition is_space :: "char \<Rightarrow> bool" where
  "is_space c = (let n = (of_char c :: nat) in
     (9 \<le> n \<and> n \<le> 13) \<or> (28 \<le> n \<and> n \<le> 32) \<or> n = 133 \<or> n = 160)"

text \<open>\<open>s.strip()\<close>.\<close>

definition strip :: "string \<Rightarrow> string" where
  "strip s = rev (dropWhile is_space (rev (dropWhile is_space s)))"

text \<open>\<open>s.startswith(p)\<close> and \<open>p in s\<close> (substring test).\<close>

fun startswith :: "string \<Rightarrow> string \<Rightarrow> bool" where
  "startswith s [] = True"
| "startswith [] (p # ps) = False"
| "startswith (c # cs) (p # ps) = (c = p \<and> startswith cs ps)"

fun contains :: "string \<Rightarrow> string \<Rightarrow> bool" where
  "contains p [] = (p = [])"
| "contains p (c # cs) = (startswith (c # cs) p \<or> contains p cs)"

text \<open>\<open>s.upper()\<close> on ASCII text.\<close>

definition upper_char :: "char \<Rightarrow> char" where
  "upper_char c = (let n = (of_char c :: nat) in
     if 97 \<le> n \<and> n \<le> 122 then char_of (n - 32) else c)"

definition upper :: "string \<Rightarrow> string" where
  "upper s = map upper_char s"

text \<open>\<open>s.replace(old, new)\<close> for a non-empty \<open>old\<close>: non-overlapping occurrences, left to
  right.\<close>

fun replace :: "string \<Rightarrow> string \<Rightarrow> string \<Rightarrow> string" where
  "replace old new [] = []"
| "replace old new (c # cs) =
     (if old \<noteq> [] \<and> startswith (c # cs) old
      then new @ replace old new (drop (length old) (c # cs))
      else c # replace old new cs)"

text \<open>\<open>s.split(sep)\<close> for a one-character separator: never an empty list.\<close>

fun split :: "char \<Rightarrow> string \<Rightarrow> string list" where
  "split sep [] = [[]]"
| "split sep (c # cs) =
     (case split sep cs of
        [] \<Rightarrow> [[c]]
      | p # ps \<Rightarrow> if c = sep then [] # p # ps else (c # p) # ps)"

text \<open>\<open>s.rfind(c)\<close> for a one-character needle: the last index, or \<open>-1\<close>.\<close>

fun rfind_from :: "char \<Rightarrow> string \<Rightarrow> int \<Rightarrow> int \<Rightarrow> int" where
  "rfind_from c [] i acc = acc"
| "rfind_from c (x # xs) i acc = rfind_from c xs (i + 1) (if x = c then i else acc)"

definition rfind :: "char \<Rightarrow> string \<Rightarrow> int" where
  "rfind c s = rfind_from c s 0 (- 1)"

section \<open>Numeric normalisation\<close>

text \<open>
  A Python \<open>float\<close> is modelled by the rational number that the decimal text denotes;
  the float itself is the double nearest to that number.  The literal \<open>1234.56\<close> of the
  specification and \<open>float("1234.56")\<close> are the same double, so equality of the
  denoted rationals is equality of the floats.
\<close>

definition digit_val :: "char \<Rightarrow> nat" where
  "digit_val c = (of_char c :: nat) - 48"

definition dec_value :: "string \<Rightarrow> nat" where
  "dec_value s = foldl (\<lambda>a c. 10 * a + digit_val c) 0 s"

text \<open>
  \<open>float(s)\<close> on the text that reaches it in \<open>parse_numeric\<close>.  Of the grammar of
  \<open>float\<close> only the sign, the digits and the point are left there: exponents,
  underscores, \<open>inf\<close> and \<open>nan\<close> need characters that \<open>NUM_SANITIZER\<close> has deleted,
  and no blank is left to skip.  \<open>None\<close> is the \<open>ValueError\<close>.
\<close>

definition py_float_unsigned :: "string \<Rightarrow> rat option" where
  "py_float_unsigned r =
     (let ip = takeWhile is_digit r; rest = dropWhile is_digit r in
      case rest of
        [] \<Rightarrow> if ip = [] then None else Some (of_nat (dec_value ip))
      | c # fr \<Rightarrow>
          if c = CHR ''.'' \<and> list_all is_digit fr \<and> (ip \<noteq> [] \<or> fr \<noteq> [])
          then Some (of_nat (dec_value ip) + of_nat (dec_value fr) / 10 ^ length fr)
          else None)"

definition py_float :: "string \<Rightarrow> rat option" where
  "py_float s =
     (case s of
        [] \<Rightarrow> None
      | c # r \<Rightarrow>
          if c = CHR ''-'' then map_option uminus (py_float_unsigned r)
          else if c = CHR ''+'' then py_float_unsigned r
          else py_float_unsigned s)"

text \<open>\<open>NUM_SANITIZER\<close> is the character class of everything but digits, comma, point,
  hyphen, the two parentheses, the no-break space and the blank: \<open>NUM_SANITIZER.sub("", val)\<close>
  keeps exactly those.\<close>

definition num_kept :: "char \<Rightarrow> bool" where
  "num_kept c = (is_digit c \<or> c = CHR '','' \<or> c = CHR ''.'' \<or> c = CHR ''-'' \<or>
     c = CHR ''('' \<or> c = CHR '')'' \<or> c = nbsp \<or> c = CHR '' '')"

definition endswith_char :: "string \<Rightarrow> char \<Rightarrow> bool" where
  "endswith_char s c = (s \<noteq> [] \<and> last s = c)"

text \<open>The separator rewriting of \<open>parse_numeric\<close> (consolidado_v3.py, lines 141 to 151):
  the text handed to \<open>float\<close>.\<close>

definition fix_separators :: "string \<Rightarrow> string" where
  "fix_separators s =
     (if CHR '','' \<in> set s \<and> CHR ''.'' \<in> set s then
        (if rfind CHR ''.'' s > rfind CHR '','' s then replace '','' [] s
         else replace '','' ''.'' (replace ''.'' [] s))
      else if CHR '','' \<in> set s then
        (let parts = split CHR '','' s in
         if length parts \<ge> 2 \<and> length (last parts) \<le> 2 then replace '','' ''.'' s
         else replace '','' [] s)
      else s)"

text \<open>The text that \<open>parse_numeric\<close> hands to \<open>float\<close>, with the sign flag \<open>neg\<close>;
  \<open>None\<close> is the early \<open>return None\<close> on blank text.\<close>

definition numeric_text :: "string \<Rightarrow> (bool \<times> string) option" where
  "numeric_text val =
     (let s = strip (replace [nbsp] '' '' (filter num_kept val)) in
      if s = [] then None
      else
        let neg = (startswith s ''('' \<and> endswith_char s CHR '')'');
            s1 = (if neg then strip (butlast (tl s)) else s);
            s2 = replace '' '' [] s1
        in Some (neg, fix_separators s2))"

text \<open>\<open>parse_numeric\<close> on a \<open>str\<close> argument.\<close>

definition parse_numeric_str :: "string \<Rightarrow> rat option" where
  "parse_numeric_str val =
     (case numeric_text val of
        None \<Rightarrow> None
      | Some (neg, s) \<Rightarrow>
          (case py_float s of
             None \<Rightarrow> None
           | Some x \<Rightarrow> Some (if neg then - x else x)))"

text \<open>The number of points in a text: \<open>s.count(".")\<close>.\<close>

definition dots :: "string \<Rightarrow> nat" where
  "dots s = length (filter (\<lambda>c. c = CHR ''.'') s)"

text \<open>The separator rewriting as britimp_consolidado_v4.py writes it (lines 158 to 163):
  one conditional expression picks the separator to delete, then every comma left becomes
  a point.\<close>

definition fix_separators_britimp :: "string \<Rightarrow> string" where
  "fix_separators_britimp s =
     (if CHR '','' \<in> set s \<and> CHR ''.'' \<in> set s then
        replace '','' ''.''
          (if rfind CHR ''.'' s < rfind CHR '','' s then replace ''.'' [] s else replace '','' [] s)
      else if CHR '','' \<in> set s then
        (let parts = split CHR '','' s in
         if length parts \<ge> 2 \<and> length (last parts) \<le> 2 then replace '','' ''.'' s
         else replace '','' [] s)
      else s)"

section \<open>The consolidated writer\<close>

text \<open>
  A \<open>DataFrame\<close> is modelled by its column labels and its rows, each row holding one
  rendered value per column; the labels are distinct, as in every frame the parsers build.
  The daily output folder is a map from file names to file contents, and a file's content
  is the sequence of its CSV records: \<open>Header\<close> carries column labels, \<open>Data\<close> the
  values of one row.  How a record is rendered into bytes (the separator, the quoting, the
  byte-order mark) is not modelled, nor is the log.  The whole run falls on one calendar
  day, so \<open>today_folder()\<close> is one folder.
\<close>

record dataframe =
  columns :: "string list"
  rows :: "string list list"

datatype csv_record = Header "string list" | Data "string list"

text \<open>\<open>df.empty\<close>: an axis of length zero.\<close>

definition df_empty :: "dataframe \<Rightarrow> bool" where
  "df_empty df = (columns df = [] \<or> rows df = [])"

text \<open>The index of the first occurrence of a label, and \<open>df[cols]\<close>.\<close>

fun index_of :: "'a \<Rightarrow> 'a list \<Rightarrow> nat" where
  "index_of x [] = 0"
| "index_of x (y # ys) = (if x = y then 0 else Suc (index_of x ys))"

definition select_cols :: "string list \<Rightarrow> dataframe \<Rightarrow> dataframe" where
  "select_cols cols df =
     \<lparr>columns = cols,
      rows = map (\<lambda>r. map (\<lambda>c. r ! index_of c (columns df)) cols) (rows df)\<rparr>"

text \<open>\<open>df.to_csv(path, index=False, mode=..., header=...)\<close>: the records written, and
  the file after the call.  Mode \<open>"w"\<close> starts from nothing, mode \<open>"a"\<close> from what the file
  holds (nothing when it does not exist).\<close>

definition csv_records :: "dataframe \<Rightarrow> bool \<Rightarrow> csv_record list" where
  "csv_records df header = (if header then [Header (columns df)] else []) @ map Data (rows df)"

datatype file_mode = ModeW | ModeA

definition to_csv ::
  "dataframe \<Rightarrow> string \<Rightarrow> file_mode \<Rightarrow> bool \<Rightarrow> (string \<rightharpoonup> csv_record list) \<Rightarrow>
     (string \<rightharpoonup> csv_record list)" where
  "to_csv df path mode header fs =
     (let before = (case mode of
                      ModeW \<Rightarrow> []
                    | ModeA \<Rightarrow> (case fs path of None \<Rightarrow> [] | Some old \<Rightarrow> old))
      in fs(path \<mapsto> before @ csv_records df header))"

text \<open>The state a run threads through the writer: the output folder and the module-level
  set \<open>RUN_WRITTEN\<close>.\<close>

record run_state =
  files :: "string \<rightharpoonup> csv_record list"
  RUN_WRITTEN :: "string set"

definition OUTPUT_FILES :: "string \<rightharpoonup> string" where
  "OUTPUT_FILES = map_of
     [(''EC_EFECT_BCO'', ''BRITIMP_EFECTBANCO.csv''),
      (''EC_EFECT_ATM'', ''BRITIMP_EFECTATM.csv''),
      (''INV_BILLETES_BCO'', ''BRITIMP_INVENTARIO_BANCO.csv''),
      (''INV_BILLETES_ATM'', ''BRITIMP_INVENTARIO_ATM.csv''),
      (''EC_BULTO_ATM'', ''BRITIMP_BULTOS_ATM.csv'')]"

definition ec_cols :: "string list" where
  "ec_cols = [''FECHA_OPERACION'', ''SUCURSAL'', ''RECIBO'', ''BULTOS'', ''MONTO'', ''MONEDA'',
     ''ING_EGR'', ''CLASIFICACION'', ''FECHA_ARCHIVO'', ''MOTIVO_MOVIMIENTO'', ''AGENCIA'',
     ''ARCHIVO_ORIGEN'']"

definition inv_cols :: "string list" where
  "inv_cols = [''FECHA_INVENTARIO'', ''DIVISA'', ''AGENCIA'', ''AGRUPACION_EFECTIVO'',
     ''TIPO_VALOR'', ''DENOMINACION'', ''CALIDAD_DEPOSITO'', ''CJE_DEP'', ''CALIDAD_CANJE'',
     ''MONEDA'', ''IMPORTE_TOTAL'', ''ARCHIVO_ORIGEN'']"

text \<open>\<open>wanted_cols_by_tipo\<close> of consolidado_v3.py (\<open>orders\<close> in consolidado_v4.py): the
  same two lists under the five keys of \<open>OUTPUT_FILES\<close>.\<close>

definition wanted_cols_by_tipo :: "string \<Rightarrow> string list" where
  "wanted_cols_by_tipo tipo =
     (if tipo = ''INV_BILLETES_BCO'' \<or> tipo = ''INV_BILLETES_ATM'' then inv_cols else ec_cols)"

text \<open>\<open>write_consolidated\<close> of consolidado_v3.py (lines 737 to 762).  The result is the
  new state and the returned path (\<open>None\<close> for the early return).\<close>

definition write_consolidated_v3 ::
  "string \<Rightarrow> dataframe \<Rightarrow> run_state \<Rightarrow> run_state \<times> string option" where
  "write_consolidated_v3 tipo df st =
     (case OUTPUT_FILES tipo of
        None \<Rightarrow> (st, None)
      | Some outpath \<Rightarrow>
          if df_empty df then (st, None)
          else
            let first = (tipo \<notin> RUN_WRITTEN st);
                st1 = (if first
                       then st\<lparr>files := (files st)(outpath := None),
                               RUN_WRITTEN := insert tipo (RUN_WRITTEN st)\<rparr>
                       else st);
                mode = (if first then ModeW else ModeA);
                header = first;
                wanted = wanted_cols_by_tipo tipo;
                cols = filter (\<lambda>c. c \<in> set (columns df)) wanted @
                       filter (\<lambda>c. c \<notin> set wanted) (columns df)
            in (st1\<lparr>files := to_csv (select_cols cols df) outpath mode header (files st1)\<rparr>,
                Some outpath))"

text \<open>\<open>write_consolidated\<close> of consolidado_v4.py (lines 242 to 262): the same steps, with
  its own column order.\<close>

definition write_consolidated_v4 ::
  "string \<Rightarrow> dataframe \<Rightarrow> run_state \<Rightarrow> run_state \<times> string option" where
  "write_consolidated_v4 tipo df st =
     (if df_empty df then (st, None)
      else case OUTPUT_FILES tipo of
        None \<Rightarrow> (st, None)
      | Some out \<Rightarrow>
          let first = (tipo \<notin> RUN_WRITTEN st);
              st1 = (if first
                     then st\<lparr>files := (files st)(out := None),
                             RUN_WRITTEN := insert tipo (RUN_WRITTEN st)\<rparr>
                     else st);
              mode = (if first then ModeW else ModeA);
              header = first;
              base = wanted_cols_by_tipo tipo;
              cols = filter (\<lambda>c. c \<in> set (columns df)) base @
                     filter (\<lambda>c. c \<notin> set base \<and> c \<noteq> ''ARCHIVO_ORIGEN'') (columns df) @
                     (if ''ARCHIVO_ORIGEN'' \<in> set (columns df) then [''ARCHIVO_ORIGEN''] else [])
          in (st1\<lparr>files := to_csv (select_cols cols df) out mode header (files st1)\<rparr>,
              Some out))"

text \<open>\<open>write_consolidated\<close> of britimp_consolidado_v4.py (lines 511 to 521): always mode
  \<open>"a"\<close>, no \<open>unlink\<close>, the frame's own column order.  It returns nothing.\<close>

definition write_consolidated_britimp :: "string \<Rightarrow> dataframe \<Rightarrow> run_state \<Rightarrow> run_state" where
  "write_consolidated_britimp tipo df st =
     (case OUTPUT_FILES tipo of
        None \<Rightarrow> st
      | Some outpath \<Rightarrow>
          if df_empty df then st
          else
            let header = (tipo \<notin> RUN_WRITTEN st);
                st1 = (if header then st\<lparr>RUN_WRITTEN := insert tipo (RUN_WRITTEN st)\<rparr> else st)
            in st1\<lparr>files := to_csv df outpath ModeA header (files st1)\<rparr>)"

text \<open>A run calls the writer once per processed file, in scan order.\<close>

definition run_writes_v3 :: "run_state \<Rightarrow> (string \<times> dataframe) list \<Rightarrow> run_state" where
  "run_writes_v3 st ws = foldl (\<lambda>s (tipo, df). fst (write_consolidated_v3 tipo df s)) st ws"

definition run_writes_v4 :: "run_state \<Rightarrow> (string \<times> dataframe) list \<Rightarrow> run_state" where
  "run_writes_v4 st ws = foldl (\<lambda>s (tipo, df). fst (write_consolidated_v4 tipo df s)) st ws"

text \<open>The column order the two writers give a frame.\<close>

definition cols_v3 :: "string \<Rightarrow> dataframe \<Rightarrow> string list" where
  "cols_v3 tipo df = filter (\<lambda>c. c \<in> set (columns df)) (wanted_cols_by_tipo tipo) @
                     filter (\<lambda>c. c \<notin> set (wanted_cols_by_tipo tipo)) (columns df)"

text \<open>The frames of a run that reach the file of a type: the non-empty ones written under
  that type.\<close>

definition writes_of :: "string \<Rightarrow> (string \<times> dataframe) list \<Rightarrow> dataframe list" where
  "writes_of tipo ws = map snd (filter (\<lambda>(t, df). t = tipo \<and> \<not> df_empty df) ws)"

text \<open>The data records the version-3 writer emits for one frame.\<close>

definition data_records_v3 :: "string \<Rightarrow> dataframe \<Rightarrow> csv_record list" where
  "data_records_v3 tipo df = map Data (rows (select_cols (cols_v3 tipo df) df))"

definition old_content :: "run_state \<Rightarrow> string \<Rightarrow> csv_record list" where
  "old_content st p = (case files st p of None \<Rightarrow> [] | Some old \<Rightarrow> old)"

section \<open>The authenticity gate\<close>

text \<open>
  The gate reads two texts.  \<open>txt\<close> is the preview after
  \<open>unir_letras_separadas(file_text_preview(path)).upper()\<close>: it is an input of the model.
  The other is the file name.  The two older gates are evaluated at ASCII file names only,
  on which \<open>remove_accents\<close> changes nothing (no character decomposes, none is a
  combining mark) and \<open>remove_accents(name).upper()\<close> is \<open>upper name\<close>; their
  definitions take the name as it is.  The gate of britimp_consolidado_v4.py is stated for
  every file name: its definition takes \<open>fname_upper\<close>, the value of
  \<open>remove_accents(path.name).upper()\<close>, as an input beside \<open>txt\<close>.  Log lines are not
  modelled.
\<close>

definition NEGATIVE_BANKS :: "string list" where
  "NEGATIVE_BANKS = [''CONTINENTAL'', ''BBVA'', ''GNB'', ''REGIONAL'', ''BASA'', ''VISION'',
     ''ATLAS'', ''SUDAMERIS'', ''FAMILIAR'', ''ITAPUA'', ''AMAMBAY'']"

text \<open>\<open>name_matches(fname, required_groups)\<close>: every group has an option that occurs in
  the upper-cased name (an empty list of groups matches).\<close>

definition name_matches :: "string \<Rightarrow> string list list \<Rightarrow> bool" where
  "name_matches fname required_groups =
     list_all (\<lambda>group. list_ex (\<lambda>opt. contains (upper opt) (upper fname)) group) required_groups"

text \<open>\<open>re.search(r"CLIENTE[^A-Z0-9]{0,10}ITAU", txt)\<close>: somewhere in the text, the word
  CLIENTE, then at most ten characters none of which is an upper-case letter or a digit,
  then ITAU.\<close>

definition is_upper_alnum :: "char \<Rightarrow> bool" where
  "is_upper_alnum c = (let n = (of_char c :: nat) in (65 \<le> n \<and> n \<le> 90) \<or> (48 \<le> n \<and> n \<le> 57))"

fun gap_then_itau :: "nat \<Rightarrow> string \<Rightarrow> bool" where
  "gap_then_itau n r =
     (startswith r ''ITAU'' \<or>
      (case n of
         0 \<Rightarrow> False
       | Suc m \<Rightarrow> (case r of [] \<Rightarrow> False | c # cs \<Rightarrow> \<not> is_upper_alnum c \<and> gap_then_itau m cs)))"

fun search_cliente_itau :: "string \<Rightarrow> bool" where
  "search_cliente_itau [] = False"
| "search_cliente_itau (c # cs) =
     ((startswith (c # cs) ''CLIENTE'' \<and> gap_then_itau 10 (drop 7 (c # cs))) \<or>
      search_cliente_itau cs)"

definition pipeline_groups :: "string list list" where
  "pipeline_groups = [[''INV'', ''EC'', ''CTA'', ''ESTADO'', ''PLANILLA''],
                      [''ATM'', ''BCO'', ''BANCO'', ''BULTO'', ''EFECT''],
                      [''BILLETE'', ''BILLETES'', ''EFECTIVO'']]"

text \<open>\<open>detect_cliente_itau\<close> of consolidado_v3.py (lines 257 to 271).  The hint is
  \<open>filename_tokens_hint\<close>; \<open>None\<close> and the empty list both leave the default groups.\<close>

definition detect_cliente_itau_v3 :: "string \<Rightarrow> string \<Rightarrow> string list list option \<Rightarrow> bool" where
  "detect_cliente_itau_v3 txt name filename_tokens_hint =
     (if list_ex (\<lambda>b. contains b txt) NEGATIVE_BANKS then False
      else if search_cliente_itau txt then True
      else if contains ''BANCO ITAU'' txt then True
      else if contains ''CLIENTE: BANCO ITAU'' txt then True
      else
        let up = upper name;
            groups = (case filename_tokens_hint of
                        None \<Rightarrow> pipeline_groups
                      | Some h \<Rightarrow> if h = [] then pipeline_groups else h);
            looks_pipeline = name_matches up groups;
            mentions_others = list_ex (\<lambda>b. contains b up) NEGATIVE_BANKS
        in looks_pipeline \<and> \<not> mentions_others)"

text \<open>\<open>detect_itau\<close> of consolidado_v4.py (lines 118 to 126).\<close>

definition detect_itau_v4 :: "string \<Rightarrow> string \<Rightarrow> bool" where
  "detect_itau_v4 txt name =
     (if list_ex (\<lambda>b. contains b txt) NEGATIVE_BANKS then False
      else if search_cliente_itau txt then True
      else if contains ''BANCO ITAU'' txt \<or> contains ''CLIENTE: BANCO ITAU'' txt then True
      else
        let up = upper name;
            looks = list_all (\<lambda>grp. list_ex (\<lambda>tok. contains tok up) grp) pipeline_groups
        in looks)"

text \<open>\<open>name_matches\<close> as britimp_consolidado_v4.py calls it.  The function normalises
  the name it is given with \<open>remove_accents(fname).upper()\<close>: called on \<open>path.name\<close> that
  value is \<open>fname_upper\<close>, and called on \<open>fname_upper\<close> itself it is \<open>fname_upper\<close>
  again (the text has no accent and no lower-case letter left).  The options are
  upper-case ASCII literals, which their normalisation leaves as they are.  So every
  call tests the options against \<open>fname_upper\<close>.\<close>

definition name_matches_upper :: "string \<Rightarrow> string list list \<Rightarrow> bool" where
  "name_matches_upper fname_upper required_groups =
     list_all (\<lambda>group. list_ex (\<lambda>opt. contains opt fname_upper) group) required_groups"

text \<open>\<open>detect_cliente_itau\<close> of britimp_consolidado_v4.py (lines 252 to 279).
  \<open>tipo_documento\<close> is what \<open>dispatch_tipo\<close> returned: a type tag or \<open>None\<close>.\<close>

definition truthy_contains :: "string \<Rightarrow> string option \<Rightarrow> bool" where
  "truthy_contains tok tipo = (case tipo of None \<Rightarrow> False | Some t \<Rightarrow> t \<noteq> [] \<and> contains tok t)"

definition detect_cliente_itau_britimp :: "string \<Rightarrow> string \<Rightarrow> string option \<Rightarrow> bool" where
  "detect_cliente_itau_britimp txt fname_upper tipo_documento =
     (if list_ex (\<lambda>b. contains b txt \<or> contains b fname_upper) NEGATIVE_BANKS then False
      else if contains ''ITAU'' txt \<or> contains ''ITAU'' fname_upper then True
      else if truthy_contains ''EC_'' tipo_documento \<and>
              name_matches_upper fname_upper
                [[''EC''], [''ATM'', ''BCO'', ''BANCO'', ''BULTO''], [''EFECTIVO'', ''BILLETE'']]
           then False
      else if truthy_contains ''INV_'' tipo_documento \<and>
              name_matches_upper fname_upper [[''INV''], [''BILLETE''], [''ATM'', ''BCO'', ''BANCO'']]
           then True
      else False)"

text \<open>\<open>dispatch_tipo\<close> of britimp_consolidado_v4.py (lines 296 to 314).  \<open>up\<close> is
  \<open>remove_accents(fname).upper()\<close> and \<open>up_text\<close> is \<open>text_content.upper()\<close>.\<close>

definition dispatch_tipo_britimp :: "string \<Rightarrow> string \<Rightarrow> string option" where
  "dispatch_tipo_britimp up up_text =
     (if name_matches_upper up [[''EC''], [''BULTO''], [''ATM'']] then Some ''EC_BULTO_ATM''
      else if name_matches_upper up [[''EC''], [''EFECT''], [''ATM'']] then Some ''EC_EFECT_ATM''
      else if name_matches_upper up [[''EC''], [''EFECT''], [''BCO'', ''BANCO'']]
           then Some ''EC_EFECT_BCO''
      else if name_matches_upper up [[''INV''], [''BILLETE''], [''ATM'']]
           then Some ''INV_BILLETES_ATM''
      else if name_matches_upper up [[''INV''], [''BILLETE''], [''BCO'', ''BANCO'']]
           then Some ''INV_BILLETES_BCO''
      else if contains ''INV'' up then
        (if contains ''INVENTARIO DE BILLETES DE ATM'' up_text then Some ''INV_BILLETES_ATM''
         else if contains ''INVENTARIO DE BILLETES DE BANCO'' up_text then Some ''INV_BILLETES_BCO''
         else Some ''INV_BILLETES_UNKNOWN'')
      else None)"

text \<open>The gate as \<open>process_file\<close> of britimp_consolidado_v4.py calls it (lines 472 to
  475): on the type that \<open>dispatch_tipo\<close> gives the document.\<close>

definition gate_in_process_file_britimp :: "string \<Rightarrow> string \<Rightarrow> string \<Rightarrow> bool" where
  "gate_in_process_file_britimp txt fname_upper up_text =
     detect_cliente_itau_britimp txt fname_upper (dispatch_tipo_britimp fname_upper up_text)"

text \<open>What makes a file name a statement name or an inventory name for that dispatcher:
  the token groups of its three statement rules and of its two inventory rules.\<close>

definition statement_named :: "string \<Rightarrow> bool" where
  "statement_named up =
     (name_matches_upper up [[''EC''], [''BULTO''], [''ATM'']] \<or>
      name_matches_upper up [[''EC''], [''EFECT''], [''ATM'']] \<or>
      name_matches_upper up [[''EC''], [''EFECT''], [''BCO'', ''BANCO'']])"

definition inventory_named :: "string \<Rightarrow> bool" where
  "inventory_named up = name_matches_upper up [[''INV''], [''BILLETE''], [''ATM'', ''BCO'', ''BANCO'']]"

definition names_competitor :: "string \<Rightarrow> string \<Rightarrow> bool" where
  "names_competitor txt up = list_ex (\<lambda>b. contains b txt \<or> contains b up) NEGATIVE_BANKS"

text \<open>\<open>dispatch_tipo\<close> of consolidado_v3.py (lines 287 to 312).  The token with an accent
  in the source's lists is left out: it cannot occur in a name whose accents were removed,
  and \<open>name_matches\<close> turns it into the unaccented token beside it.\<close>

definition dispatch_tipo_v3 :: "string \<Rightarrow> string option" where
  "dispatch_tipo_v3 fname =
     (let up = upper fname in
      if contains ''INV'' up \<and> contains ''ATM'' up then Some ''INV_BILLETES_ATM''
      else if contains ''INV'' up \<and>
              list_ex (\<lambda>tok. contains tok up) [''BANCO'', ''BCO'', ''DOLAR'', ''USD'']
           then Some ''INV_BILLETES_BCO''
      else if name_matches up [[''EC'', ''CTA'', ''ESTADO''], [''EFECT'', ''EFECTIVO''], [''BCO'', ''BANCO'']]
           then Some ''EC_EFECT_BCO''
      else if name_matches up [[''EC'', ''CTA'', ''ESTADO''], [''EFECT'', ''EFECTIVO''], [''ATM'']]
           then Some ''EC_EFECT_ATM''
      else if name_matches up [[''EC'', ''CTA'', ''ESTADO''], [''BULTO'', ''BULTOS''], [''ATM'']]
           then Some ''EC_BULTO_ATM''
      else if name_matches up [[''INV''], [''BILLETE'', ''BILLETES''], [''ATM'']]
           then Some ''INV_BILLETES_ATM''
      else if name_matches up [[''INV''], [''BILLETE'', ''BILLETES''], [''BCO'', ''BANCO'', ''DOLAR'']]
           then Some ''INV_BILLETES_BCO''
      else if name_matches up [[''INV'']] then Some ''INV_BILLETES_UNKNOWN''
      else None)"

section \<open>The text previewer\<close>

text \<open>
  \<open>file_text_preview\<close> only calls libraries (pandas, pypdf, the file system).  What each
  call does on the given path is an input of the model: it returns a value or raises.  The
  model is the control flow of the function around those calls, and its result is the
  returned text (\<open>Inr\<close>) or the exception that leaves the function (\<open>Inl\<close>).
\<close>

datatype error = Exception string

text \<open>A workbook that opened: per sheet, in \<open>sheet_names\<close> order, what
  \<open>pd.read_excel(xl, sheet_name=sh, header=None, nrows=max_rows_excel)\<close> does, and for a
  frame that was read the lines that the row aggregation yields (none for an empty frame).\<close>

type_synonym workbook = "(error + string list) list"

record preview_env =
  suffix_lower :: string
  excel_default :: "error + workbook"
  excel_engine :: "error + workbook"
  xlrd_available :: bool
  PdfReader_available :: bool
  pdf_pages :: "error + (error + string option) list"
  raw_read :: "error + string"

text \<open>The loop over the sheets: an exception of \<open>read_excel\<close> ends it.\<close>

fun read_sheets :: "workbook \<Rightarrow> error + string list" where
  "read_sheets [] = Inr []"
| "read_sheets (sh # shs) =
     (case sh of
        Inl e \<Rightarrow> Inl e
      | Inr ls \<Rightarrow> (case read_sheets shs of Inl e \<Rightarrow> Inl e | Inr rest \<Rightarrow> Inr (ls @ rest)))"

text \<open>\<open>sep.join(parts)\<close>.\<close>

fun join :: "string \<Rightarrow> string list \<Rightarrow> string" where
  "join sep [] = []"
| "join sep [x] = x"
| "join sep (x # y # ys) = x @ sep @ join sep (y # ys)"

text \<open>The loop over the pages of a PDF: \<open>txt += (page.extract_text() or "") + "\n"\<close> in
  consolidado_v3.py and consolidado_v4.py, without the line feed in
  britimp_consolidado_v4.py.\<close>

fun pages_text :: "string \<Rightarrow> (error + string option) list \<Rightarrow> error + string" where
  "pages_text nl [] = Inr []"
| "pages_text nl (pg # pgs) =
     (case pg of
        Inl e \<Rightarrow> Inl e
      | Inr t \<Rightarrow>
          (case pages_text nl pgs of
             Inl e \<Rightarrow> Inl e
           | Inr rest \<Rightarrow> Inr ((case t of None \<Rightarrow> [] | Some s \<Rightarrow> s) @ nl @ rest)))"

text \<open>\<open>try: \<dots> except Exception: return ""\<close> around a computation.\<close>

definition or_empty :: "error + string \<Rightarrow> string" where
  "or_empty r = (case r of Inl e \<Rightarrow> [] | Inr s \<Rightarrow> s)"

definition pdf_try :: "string \<Rightarrow> preview_env \<Rightarrow> string" where
  "pdf_try nl env =
     or_empty (case pdf_pages env of Inl e \<Rightarrow> Inl e | Inr pgs \<Rightarrow> pages_text nl pgs)"

text \<open>\<open>file_text_preview\<close> of consolidado_v3.py (lines 226 to 255) and of
  consolidado_v4.py (lines 83 to 99): the two differ in the last read only
  (\<open>str(f.read(4096))\<close> against \<open>read_text("utf-8", errors="ignore")[:4000]\<close>), which is
  \<open>raw_read\<close> here.\<close>

definition file_text_preview_v3 :: "preview_env \<Rightarrow> error + string" where
  "file_text_preview_v3 env =
     (if suffix_lower env = ''.xlsx'' \<or> suffix_lower env = ''.xls'' then
        (case (case excel_default env of Inl e \<Rightarrow> excel_engine env | Inr xl \<Rightarrow> Inr xl) of
           Inl e \<Rightarrow> Inl e
         | Inr xl \<Rightarrow>
             (case read_sheets xl of
                Inl e \<Rightarrow> Inl e
              | Inr parts \<Rightarrow> Inr (join [CHR 0x0A] parts)))
      else if suffix_lower env = ''.pdf'' \<and> PdfReader_available env then
        Inr (pdf_try [CHR 0x0A] env)
      else Inr (or_empty (raw_read env)))"

text \<open>\<open>read_excel_any_version\<close> and \<open>file_text_preview\<close> of britimp_consolidado_v4.py
  (lines 220 to 250).\<close>

definition read_excel_any_version :: "preview_env \<Rightarrow> workbook option" where
  "read_excel_any_version env =
     (case excel_default env of
        Inr xl \<Rightarrow> Some xl
      | Inl e \<Rightarrow>
          if suffix_lower env = ''.xlsx'' \<or> xlrd_available env
          then (case excel_engine env of Inr xl \<Rightarrow> Some xl | Inl e' \<Rightarrow> None)
          else None)"

definition file_text_preview_britimp :: "preview_env \<Rightarrow> error + string" where
  "file_text_preview_britimp env =
     (if suffix_lower env = ''.xlsx'' \<or> suffix_lower env = ''.xls'' then
        (case read_excel_any_version env of
           None \<Rightarrow> Inr []
         | Some xl \<Rightarrow>
             (case read_sheets xl of
                Inl e \<Rightarrow> Inl e
              | Inr parts \<Rightarrow> Inr (join [CHR 0x0A] parts)))
      else if suffix_lower env = ''.pdf'' \<and> PdfReader_available env then
        Inr (pdf_try [] env)
      else Inr [])"

section \<open>Sheet cells and their normalisers\<close>

text \<open>
  A sheet read with \<open>pd.read_excel(\<dots>, header=None)\<close> is a list of rows of equal length,
  short rows padded with NaN.  A cell is text (\<open>Str\<close>), a Python \<open>int\<close> (\<open>Num\<close>), a
  \<open>float\<close> that holds a whole number (\<open>Flt\<close>) or NaN, the empty cell.  \<open>Flt\<close> is what
  pandas makes of a whole number in a numeric column that also has empty cells, as the
  receipt column of a statement sheet is: the column becomes \<open>float64\<close> and 123456 reaches
  the parsers as 123456.0.  Cells that hold a float with a fractional part or a datetime
  are outside this model: what the parsers do with them depends on Python's rendering of
  floats and of time stamps.
\<close>

datatype cell = Str string | Num int | Flt int | NaN

text \<open>\<open>pd.isna(x)\<close> and \<open>str(x)\<close>.  A whole float is written with \<open>.0\<close> after its
  digits (below \<open>10 ^ 16\<close> in magnitude, where Python has not yet switched to the exponent
  form).\<close>

definition isna :: "cell \<Rightarrow> bool" where
  "isna c = (c = NaN)"

definition digit_char :: "nat \<Rightarrow> char" where
  "digit_char d = char_of (48 + d)"

text \<open>The decimal digits of a number that is not negative, and \<open>str(i)\<close> for an
  integer.\<close>

function str_nonneg :: "int \<Rightarrow> string" where
  "str_nonneg n =
     (if n < 10 then [char_of (48 + n)]
      else str_nonneg (n div 10) @ [char_of (48 + n mod 10)])"
  by pat_completeness auto
termination
  by (relation "measure nat") auto

declare str_nonneg.simps [simp del]

definition str_int :: "int \<Rightarrow> string" where
  "str_int i = (if i < 0 then CHR ''-'' # str_nonneg (- i) else str_nonneg i)"

definition py_str :: "cell \<Rightarrow> string" where
  "py_str c =
     (case c of
        Str s \<Rightarrow> s
      | Num i \<Rightarrow> str_int i
      | Flt i \<Rightarrow> str_int i @ ''.0''
      | NaN \<Rightarrow> ''nan'')"

text \<open>\<open>parse_numeric\<close> (consolidado_v3.py, lines 132 to 157) on a cell.\<close>

definition parse_numeric :: "cell \<Rightarrow> rat option" where
  "parse_numeric val =
     (case val of
        NaN \<Rightarrow> None
      | Num i \<Rightarrow> Some (of_int i)
      | Flt i \<Rightarrow> Some (of_int i)
      | Str s \<Rightarrow> parse_numeric_str s)"

text \<open>\<open>clean_digits\<close>: the digits of \<open>str(val)\<close>, nothing for NaN.\<close>

definition clean_digits :: "cell \<Rightarrow> string" where
  "clean_digits val = (if isna val then [] else filter is_digit (py_str val))"

subsection \<open>Dates\<close>

definition leap_year :: "nat \<Rightarrow> bool" where
  "leap_year y = ((y mod 4 = 0 \<and> y mod 100 \<noteq> 0) \<or> y mod 400 = 0)"

definition days_in_month :: "nat \<Rightarrow> nat \<Rightarrow> nat" where
  "days_in_month y m =
     (if m = 2 then (if leap_year y then 29 else 28)
      else if m = 4 \<or> m = 6 \<or> m = 9 \<or> m = 11 then 30 else 31)"

text \<open>\<open>datetime(y, m, d)\<close> exists.\<close>

definition valid_date :: "nat \<Rightarrow> nat \<Rightarrow> nat \<Rightarrow> bool" where
  "valid_date y m d = (1 \<le> y \<and> y \<le> 9999 \<and> 1 \<le> m \<and> m \<le> 12 \<and> 1 \<le> d \<and> d \<le> days_in_month y m)"

text \<open>\<open>strftime("%d/%m/%Y")\<close>, the year on four digits (for a year below 1000 the C
  library decides whether \<open>%Y\<close> pads).\<close>

definition pad2 :: "nat \<Rightarrow> string" where
  "pad2 n = [digit_char (n div 10 mod 10), digit_char (n mod 10)]"

definition ddmmyyyy :: "nat \<Rightarrow> nat \<Rightarrow> nat \<Rightarrow> string" where
  "ddmmyyyy y m d = pad2 d @ ''/'' @ pad2 m @ ''/'' @ pad2 (y div 100) @ pad2 (y mod 100)"

text \<open>The directives of \<open>strptime\<close> as the regular expressions of \<open>_strptime\<close>:
  \<open>%d\<close> is \<open>3[0-1]|[1-2]\d|0[1-9]|[1-9]| [1-9]\<close>, \<open>%m\<close> is \<open>1[0-2]|0[1-9]|[1-9]\<close>,
  \<open>%Y\<close> four digits, \<open>%y\<close> two digits (69 to 99 in the 1900s, 00 to 68 in the 2000s).
  The separators of the three formats are neither digits nor blanks, so the text parses
  exactly when it splits into three fields that each match their directive.\<close>

definition nonzero_digit :: "char \<Rightarrow> bool" where
  "nonzero_digit c = (is_digit c \<and> c \<noteq> CHR ''0'')"

definition field_d :: "string \<Rightarrow> nat option" where
  "field_d f =
     (case f of
        [c] \<Rightarrow> if nonzero_digit c then Some (digit_val c) else None
      | [c1, c2] \<Rightarrow>
          if (c1 = CHR ''3'' \<and> (c2 = CHR ''0'' \<or> c2 = CHR ''1'')) \<or>
             ((c1 = CHR ''1'' \<or> c1 = CHR ''2'') \<and> is_digit c2) \<or>
             (c1 = CHR ''0'' \<and> nonzero_digit c2)
          then Some (10 * digit_val c1 + digit_val c2)
          else if c1 = CHR '' '' \<and> nonzero_digit c2 then Some (digit_val c2)
          else None
      | _ \<Rightarrow> None)"

definition field_m :: "string \<Rightarrow> nat option" where
  "field_m f =
     (case f of
        [c] \<Rightarrow> if nonzero_digit c then Some (digit_val c) else None
      | [c1, c2] \<Rightarrow>
          if (c1 = CHR ''1'' \<and> (c2 = CHR ''0'' \<or> c2 = CHR ''1'' \<or> c2 = CHR ''2'')) \<or>
             (c1 = CHR ''0'' \<and> nonzero_digit c2)
          then Some (10 * digit_val c1 + digit_val c2)
          else None
      | _ \<Rightarrow> None)"

definition field_Y :: "string \<Rightarrow> nat option" where
  "field_Y f = (if length f = 4 \<and> list_all is_digit f then Some (dec_value f) else None)"

definition field_y :: "string \<Rightarrow> nat option" where
  "field_y f =
     (if length f = 2 \<and> list_all is_digit f
      then (let y = dec_value f in Some (if y \<le> 68 then 2000 + y else 1900 + y))
      else None)"

text \<open>\<open>datetime.strptime(s, fmt).strftime("%d/%m/%Y")\<close> for a format of three fields;
  \<open>None\<close> is the \<open>ValueError\<close>.\<close>

definition reformat_date ::
  "char \<Rightarrow> (string \<Rightarrow> nat option) \<Rightarrow> (string \<Rightarrow> nat option) \<Rightarrow> (string \<Rightarrow> nat option) \<Rightarrow>
     (nat \<Rightarrow> nat \<Rightarrow> nat \<Rightarrow> nat \<times> nat \<times> nat) \<Rightarrow> string \<Rightarrow> string option" where
  "reformat_date sep f1 f2 f3 ymd s =
     (case split sep s of
        [a, b, c] \<Rightarrow>
          (case (f1 a, f2 b, f3 c) of
             (Some x, Some y, Some z) \<Rightarrow>
               (case ymd x y z of
                  (yr, mo, dy) \<Rightarrow> if valid_date yr mo dy then Some (ddmmyyyy yr mo dy) else None)
           | _ \<Rightarrow> None)
      | _ \<Rightarrow> None)"

text \<open>The three formats tried in order: \<open>%Y-%m-%d\<close>, \<open>%d-%m-%Y\<close>, \<open>%d/%m/%y\<close>.\<close>

definition strptime_formats :: "string \<Rightarrow> string option" where
  "strptime_formats s =
     (case reformat_date CHR ''-'' field_Y field_m field_d (\<lambda>y m d. (y, m, d)) s of
        Some r \<Rightarrow> Some r
      | None \<Rightarrow>
          (case reformat_date CHR ''-'' field_d field_m field_Y (\<lambda>d m y. (y, m, d)) s of
             Some r \<Rightarrow> Some r
           | None \<Rightarrow> reformat_date CHR ''/'' field_d field_m field_y (\<lambda>d m y. (y, m, d)) s))"

text \<open>\<open>DATE_RE = ^\s*(\d{2}/\d{2}/\d{4})\s*$\<close> of consolidado_v3.py, matched against text
  that \<open>strip()\<close> has left without a blank at either end.\<close>

definition DATE_RE_match :: "string \<Rightarrow> bool" where
  "DATE_RE_match s =
     (case s of
        [d1, d2, s1, m1, m2, s2, y1, y2, y3, y4] \<Rightarrow>
          list_all is_digit [d1, d2, m1, m2, y1, y2, y3, y4] \<and> s1 = CHR ''/'' \<and> s2 = CHR ''/''
      | _ \<Rightarrow> False)"

text \<open>\<open>excel_serial_to_ddmmyyyy\<close>: the day \<open>val\<close> days after 30 December 1899, or
  \<open>None\<close> when that day is outside the years 1 to 9999 (the \<open>OverflowError\<close> is caught).
  The day count is turned into a civil date by the usual era arithmetic on the proleptic
  Gregorian calendar: \<open>z\<close> counts days from 1 March of year 0.\<close>

definition civil_from_days :: "int \<Rightarrow> nat \<times> nat \<times> nat" where
  "civil_from_days z =
     (let era = z div 146097;
          doe = z mod 146097;
          yoe = (doe - doe div 1460 + doe div 36524 - doe div 146096) div 365;
          doy = doe - (365 * yoe + yoe div 4 - yoe div 100);
          mp = (5 * doy + 2) div 153;
          d = doy - (153 * mp + 2) div 5 + 1;
          m = (if mp < 10 then mp + 3 else mp - 9);
          y = yoe + era * 400 + (if m \<le> 2 then 1 else 0)
      in (nat y, nat m, nat d))"

definition excel_serial_to_ddmmyyyy :: "int \<Rightarrow> string option" where
  "excel_serial_to_ddmmyyyy val =
     (if - 693593 \<le> val \<and> val \<le> 2958465
      then (case civil_from_days (val + 693899) of (y, m, d) \<Rightarrow> Some (ddmmyyyy y m d))
      else None)"

text \<open>\<open>to_ddmmyyyy\<close> of consolidado_v3.py (lines 113 to 128).\<close>

definition to_ddmmyyyy :: "cell \<Rightarrow> string option" where
  "to_ddmmyyyy val =
     (case val of
        NaN \<Rightarrow> None
      | Num i \<Rightarrow> excel_serial_to_ddmmyyyy i
      | Flt i \<Rightarrow> excel_serial_to_ddmmyyyy i
      | Str v \<Rightarrow>
          (let s = strip v in
           if DATE_RE_match s then Some s else strptime_formats s))"

subsection \<open>Currency\<close>

text \<open>\<open>normalize_divisa_to_iso\<close> of consolidado_v3.py (lines 211 to 220) on ASCII text;
  the replacement of the guarani sign, which is not ASCII, has nothing to replace.\<close>

definition normalize_divisa_to_iso :: "string \<Rightarrow> string" where
  "normalize_divisa_to_iso v =
     (let u = upper (strip v);
          u1 = replace ''U$D'' ''USD'' (replace ''U$S'' ''USD'' (replace ''US$'' ''USD'' u));
          canon = filter is_upper_alnum u1
      in if startswith canon ''GUAR'' \<or>
            canon \<in> set [''PYG'', ''PYGS'', ''GS'', ''GUARANI'', ''GUARANIES''] then ''PYG''
         else if startswith canon ''DOL'' \<or> contains ''USD'' canon \<or>
                 canon \<in> set [''US'', ''USS''] then ''USD''
         else [])"

section \<open>The statement extractors\<close>

text \<open>
  One record of a statement sheet, with the columns of the source's dictionary.  The
  header metadata of a sheet (agency, file date) comes from a pattern search over the whole
  sheet text and the file name from the path: the three are inputs of the model, and so is
  the classification the caller passes.
\<close>

record movement =
  FECHA_OPERACION :: string
  SUCURSAL :: string
  RECIBO :: string
  BULTOS :: "int option"
  MONTO :: rat
  MONEDA :: string
  ING_EGR :: string
  CLASIFICACION :: string
  FECHA_ARCHIVO :: "string option"
  MOTIVO_MOVIMIENTO :: string
  AGENCIA :: string
  ARCHIVO_ORIGEN :: string

record sheet_ctx =
  clasificacion :: string
  agencia :: string
  fecha_archivo :: "string option"
  archivo_origen :: string

text \<open>The loop variables \<open>section\<close> (here \<open>sect\<close>), \<open>motivo\<close> and \<open>started\<close>.\<close>

record scan_state =
  sect :: "string option"
  motivo :: "string option"
  started :: bool

definition initial_state :: scan_state where
  "initial_state = \<lparr>sect = None, motivo = None, started = False\<rparr>"

text \<open>What one pass of the loop body does: \<open>Next\<close> is falling through or \<open>continue\<close>,
  with the new loop variables and the records appended; \<open>Stop\<close> is \<open>break\<close>.\<close>

datatype ('s, 'r) step = Next 's "'r list" | Stop

fun scan_rows :: "('s \<Rightarrow> cell list \<Rightarrow> ('s, 'r) step) \<Rightarrow> 's \<Rightarrow> cell list list \<Rightarrow> 'r list" where
  "scan_rows body st [] = []"
| "scan_rows body st (row # rest) =
     (case body st row of
        Stop \<Rightarrow> []
      | Next st' recs \<Rightarrow> recs @ scan_rows body st' rest)"

text \<open>\<open>row_text(row)\<close>: the cells that are neither NaN nor blank, joined by one blank.\<close>

definition row_text :: "cell list \<Rightarrow> string" where
  "row_text row =
     strip (join '' '' (map py_str (filter (\<lambda>x. \<not> isna x \<and> strip (py_str x) \<noteq> []) row)))"

text \<open>The four scans of a data row.  Each returns what it found and the cells after it,
  as \<open>idx\<close> is left by the \<open>while\<close> loop.\<close>

fun find_fecha :: "cell list \<Rightarrow> (string \<times> cell list) option" where
  "find_fecha [] = None"
| "find_fecha (c # cs) =
     (case to_ddmmyyyy c of
        Some f \<Rightarrow> if f \<noteq> [] then Some (f, cs) else find_fecha cs
      | None \<Rightarrow> find_fecha cs)"

fun find_sucursal :: "cell list \<Rightarrow> (string \<times> cell list) option" where
  "find_sucursal [] = None"
| "find_sucursal (c # cs) =
     (let sval = strip (py_str c) in
      if sval \<noteq> [] then Some (sval, cs) else find_sucursal cs)"

fun find_recibo :: "cell list \<Rightarrow> (string \<times> cell list) option" where
  "find_recibo [] = None"
| "find_recibo (c # cs) =
     (let digits = clean_digits c in
      if length digits \<ge> 5 then Some (digits, cs) else find_recibo cs)"

text \<open>\<open>nums\<close>: the values of the remaining cells that \<open>parse_numeric\<close> reads, in order.\<close>

definition collect_nums :: "cell list \<Rightarrow> rat list" where
  "collect_nums cs = List.map_filter parse_numeric cs"

text \<open>\<open>moneda_guess\<close>: \<open>"PYG"\<close>, overwritten by each remaining text cell that names a
  currency.\<close>

fun guess_moneda :: "string \<Rightarrow> cell list \<Rightarrow> string" where
  "guess_moneda g [] = g"
| "guess_moneda g (c # cs) =
     (case c of
        Str s \<Rightarrow>
          (let iso = normalize_divisa_to_iso s in
           guess_moneda (if iso = ''PYG'' \<or> iso = ''USD'' then iso else g) cs)
      | _ \<Rightarrow> guess_moneda g cs)"

text \<open>\<open>float(x).is_integer()\<close> and \<open>int(x)\<close> on such a value.\<close>

definition is_integer :: "rat \<Rightarrow> bool" where
  "is_integer x = (of_int \<lfloor>x\<rfloor> = x)"

text \<open>\<open>any(to_ddmmyyyy(c) for c in row)\<close>.\<close>

definition has_date :: "cell list \<Rightarrow> bool" where
  "has_date row = list_ex (\<lambda>c. case to_ddmmyyyy c of Some f \<Rightarrow> f \<noteq> [] | None \<Rightarrow> False) row"

definition in_section :: "scan_state \<Rightarrow> bool" where
  "in_section st = (started st \<and> (sect st = Some ''INGRESOS'' \<or> sect st = Some ''EGRESOS''))"

text \<open>\<open>(motivo or section)\<close>, read where \<open>section\<close> is one of the two section names.\<close>

definition motivo_or_section :: "scan_state \<Rightarrow> string" where
  "motivo_or_section st =
     (case motivo st of
        Some m \<Rightarrow> if m \<noteq> [] then m else (case sect st of Some s \<Rightarrow> s | None \<Rightarrow> [])
      | None \<Rightarrow> (case sect st of Some s \<Rightarrow> s | None \<Rightarrow> []))"

definition ing_egr :: "scan_state \<Rightarrow> string" where
  "ing_egr st = (if sect st = Some ''INGRESOS'' then ''IN'' else ''OUT'')"

subsection \<open>The generic statement parser\<close>

text \<open>The amount policy of \<open>parse_ec_efect_xlsx_generic\<close> (consolidado_v3.py, lines 624
  to 629): \<open>monto = nums[-1] if nums else 0.0\<close>, and \<open>bultos\<close> the value before it when
  there is one and it is integral.\<close>

definition generic_monto :: "rat list \<Rightarrow> rat" where
  "generic_monto nums = (if nums = [] then 0 else last nums)"

definition generic_bultos :: "rat list \<Rightarrow> int option" where
  "generic_bultos nums =
     (if length nums \<ge> 2
      then (let bn = nums ! (length nums - 2) in if is_integer bn then Some \<lfloor>bn\<rfloor> else None)
      else None)"

text \<open>The data-row part of the loop body (lines 596 to 644): the records it appends.\<close>

definition generic_data_row :: "sheet_ctx \<Rightarrow> scan_state \<Rightarrow> cell list \<Rightarrow> movement list" where
  "generic_data_row ctx st row =
     (case find_fecha row of
        None \<Rightarrow> []
      | Some (fecha, r1) \<Rightarrow>
          (case find_sucursal r1 of
             None \<Rightarrow> []
           | Some (sucursal, r2) \<Rightarrow>
               (case find_recibo r2 of
                  None \<Rightarrow> []
                | Some (recibo, r3) \<Rightarrow>
                    (let nums = collect_nums r3;
                         moneda_guess = guess_moneda ''PYG'' r3
                     in [\<lparr>FECHA_OPERACION = fecha,
                          SUCURSAL = sucursal,
                          RECIBO = recibo,
                          BULTOS = generic_bultos nums,
                          MONTO = generic_monto nums,
                          MONEDA = moneda_guess,
                          ING_EGR = ing_egr st,
                          CLASIFICACION = clasificacion ctx,
                          FECHA_ARCHIVO = fecha_archivo ctx,
                          MOTIVO_MOVIMIENTO = motivo_or_section st,
                          AGENCIA = agencia ctx,
                          ARCHIVO_ORIGEN = archivo_origen ctx\<rparr>]))))"

text \<open>The loop body of \<open>parse_ec_efect_xlsx_generic\<close> (lines 577 to 644).\<close>

definition generic_body :: "sheet_ctx \<Rightarrow> scan_state \<Rightarrow> cell list \<Rightarrow> (scan_state, movement) step" where
  "generic_body ctx st row =
     (let txt = upper (row_text row) in
      if contains ''SALDO ANTERIOR'' txt
        then Next \<lparr>sect = None, motivo = None, started = False\<rparr> []
      else if contains ''INGRESOS'' txt \<and> \<not> contains ''EGRESOS'' txt
        then Next \<lparr>sect = Some ''INGRESOS'', motivo = None, started = True\<rparr> []
      else if contains ''EGRESOS'' txt
        then Next \<lparr>sect = Some ''EGRESOS'', motivo = None, started = True\<rparr> []
      else if contains ''INFORME DE PROCESOS'' txt \<or> contains ''INFORME DE ERRORES'' txt
        then Stop
      else if \<not> in_section st then Next st []
      else if contains ''TOTAL'' txt \<and> \<not> has_date row then Next (st\<lparr>motivo := None\<rparr>) []
      else Next st (generic_data_row ctx st row))"

text \<open>\<open>parse_ec_efect_xlsx_generic\<close> on one sheet: the records it appends to
  \<open>registros\<close>.\<close>

definition parse_ec_efect_xlsx_generic :: "sheet_ctx \<Rightarrow> cell list list \<Rightarrow> movement list" where
  "parse_ec_efect_xlsx_generic ctx sheet = scan_rows (generic_body ctx) initial_state sheet"

subsection \<open>The bundle parser\<close>

text \<open>\<open>while len(nums) < 4: nums.append(0.0)\<close>.\<close>

definition pad4 :: "rat list \<Rightarrow> rat list" where
  "pad4 nums = nums @ replicate (4 - length nums) 0"

text \<open>\<open>add_row(moneda, bultos, monto)\<close> (lines 389 to 403), called with
  \<open>b if b else None\<close> and \<open>m if m else 0.0\<close>.\<close>

definition add_row :: "sheet_ctx \<Rightarrow> scan_state \<Rightarrow> string \<Rightarrow> string \<Rightarrow> string \<Rightarrow> string \<Rightarrow> rat \<Rightarrow> rat \<Rightarrow> movement" where
  "add_row ctx st fecha sucursal recibo moneda b m =
     \<lparr>FECHA_OPERACION = fecha,
      SUCURSAL = sucursal,
      RECIBO = recibo,
      BULTOS = (if b \<noteq> 0 \<and> is_integer b then Some \<lfloor>b\<rfloor> else None),
      MONTO = m,
      MONEDA = moneda,
      ING_EGR = ing_egr st,
      CLASIFICACION = ''ATM'',
      FECHA_ARCHIVO = fecha_archivo ctx,
      MOTIVO_MOVIMIENTO = motivo_or_section st,
      AGENCIA = agencia ctx,
      ARCHIVO_ORIGEN = archivo_origen ctx\<rparr>"

text \<open>The currency split (lines 386 to 414) on the numbers of a row.\<close>

definition bultos_emit ::
  "sheet_ctx \<Rightarrow> scan_state \<Rightarrow> string \<Rightarrow> string \<Rightarrow> string \<Rightarrow> rat list \<Rightarrow> movement list" where
  "bultos_emit ctx st fecha sucursal recibo nums0 =
     (let nums = pad4 nums0;
          bgs = nums ! 0; mgs = nums ! 1; busd = nums ! 2; musd = nums ! 3;
          has_gs = (bgs \<noteq> 0 \<or> mgs \<noteq> 0);
          has_usd = (busd \<noteq> 0 \<or> musd \<noteq> 0)
      in if has_gs \<and> \<not> has_usd then [add_row ctx st fecha sucursal recibo ''PYG'' bgs mgs]
         else if has_usd \<and> \<not> has_gs then [add_row ctx st fecha sucursal recibo ''USD'' busd musd]
         else if has_gs \<and> has_usd
           then [add_row ctx st fecha sucursal recibo ''PYG'' bgs mgs,
                 add_row ctx st fecha sucursal recibo ''USD'' busd musd]
         else [])"

definition bultos_data_row :: "sheet_ctx \<Rightarrow> scan_state \<Rightarrow> cell list \<Rightarrow> movement list" where
  "bultos_data_row ctx st row =
     (case find_fecha row of
        None \<Rightarrow> []
      | Some (fecha, r1) \<Rightarrow>
          (case find_sucursal r1 of
             None \<Rightarrow> []
           | Some (sucursal, r2) \<Rightarrow>
               (case find_recibo r2 of
                  None \<Rightarrow> []
                | Some (recibo, r3) \<Rightarrow> bultos_emit ctx st fecha sucursal recibo (collect_nums r3))))"

text \<open>The loop body of \<open>parse_sheet\<close> in \<open>parse_ec_bultos_atm_xlsx\<close> (lines 337 to 414).\<close>

definition bultos_body :: "sheet_ctx \<Rightarrow> scan_state \<Rightarrow> cell list \<Rightarrow> (scan_state, movement) step" where
  "bultos_body ctx st row =
     (let txt = upper (row_text row) in
      if contains ''SALDO ANTERIOR'' txt
        then Next \<lparr>sect = None, motivo = None, started = False\<rparr> []
      else if contains ''INGRESOS'' txt \<and> \<not> contains ''EGRESOS'' txt
        then Next \<lparr>sect = Some ''INGRESOS'', motivo = None, started = True\<rparr> []
      else if contains ''EGRESOS'' txt
        then Next \<lparr>sect = Some ''EGRESOS'', motivo = None, started = True\<rparr> []
      else if contains ''INFORME DE PROCESOS'' txt \<or> contains ''INFORME DE ERRORES'' txt
        then Stop
      else if \<not> in_section st then Next st []
      else if contains ''TOTAL'' txt \<and> \<not> has_date row then Next (st\<lparr>motivo := None\<rparr>) []
      else
        (let nonempty = filter (\<lambda>x. strip (py_str x) \<noteq> [] \<and> \<not> isna x) row in
         if length nonempty = 1 \<and> \<not> DATE_RE_match (strip (py_str (hd nonempty)))
         then Next (st\<lparr>motivo := Some (strip (py_str (hd nonempty)))\<rparr>) []
         else Next st (bultos_data_row ctx st row)))"

definition parse_ec_bultos_atm_xlsx :: "sheet_ctx \<Rightarrow> cell list list \<Rightarrow> movement list" where
  "parse_ec_bultos_atm_xlsx ctx sheet = scan_rows (bultos_body ctx) initial_state sheet"

text \<open>The sheet of the specification as a frame of text cells: four columns, the short
  rows padded with NaN.\<close>

definition spec_sheet :: "cell list list" where
  "spec_sheet =
     [[Str ''INGRESOS'', NaN, NaN, NaN],
      [Str ''01/01/2024'', Str ''ASU'', Str ''123456'', Str ''1.000.000''],
      [Str ''MOTIVO X'', NaN, NaN, NaN],
      [Str ''02/01/2024'', Str ''ASU'', Str ''654321'', Str ''2.000.000''],
      [Str ''TOTAL'', NaN, NaN, NaN]]"

text \<open>The same sheet when pandas reads the receipt column as numbers: every filled cell
  of that column is a whole number and the others are empty, so the column is
  \<open>float64\<close>.  The amounts stay text: \<open>1.000.000\<close> is no number to pandas either.\<close>

definition spec_sheet_numeric :: "cell list list" where
  "spec_sheet_numeric =
     [[Str ''INGRESOS'', NaN, NaN, NaN],
      [Str ''01/01/2024'', Str ''ASU'', Flt 123456, Str ''1.000.000''],
      [Str ''MOTIVO X'', NaN, NaN, NaN],
      [Str ''02/01/2024'', Str ''ASU'', Flt 654321, Str ''2.000.000''],
      [Str ''TOTAL'', NaN, NaN, NaN]]"

text \<open>The header metadata of that sheet: its text has no \<open>SUC:\<close> and no
  \<open>ESTADO DE CUENTA \<dots> DEL:\<close>, so the agency is empty and there is no file date.\<close>

definition spec_ctx :: sheet_ctx where
  "spec_ctx = \<lparr>clasificacion = ''ATM'', agencia = [], fecha_archivo = None,
               archivo_origen = ''EC_EFECTIVO_ATM.xlsx''\<rparr>"

subsection \<open>The bank statement parser of britimp_consolidado_v4.py\<close>

text \<open>\<open>DATE_RE = ^\s*(\d{1,2}/\d{1,2}/\d{4})\s*$\<close> and \<open>to_ddmmyyyy\<close> of
  britimp_consolidado_v4.py (lines 117 to 144): day and month may have one digit.\<close>

definition digits_between :: "nat \<Rightarrow> nat \<Rightarrow> string \<Rightarrow> bool" where
  "digits_between lo hi f = (lo \<le> length f \<and> length f \<le> hi \<and> list_all is_digit f)"

definition DATE_RE_match_britimp :: "string \<Rightarrow> bool" where
  "DATE_RE_match_britimp s =
     (case split CHR ''/'' s of
        [a, b, c] \<Rightarrow> digits_between 1 2 a \<and> digits_between 1 2 b \<and> digits_between 4 4 c
      | _ \<Rightarrow> False)"

definition to_ddmmyyyy_britimp :: "cell \<Rightarrow> string option" where
  "to_ddmmyyyy_britimp val =
     (case val of
        NaN \<Rightarrow> None
      | Num i \<Rightarrow> excel_serial_to_ddmmyyyy i
      | Flt i \<Rightarrow> excel_serial_to_ddmmyyyy i
      | Str v \<Rightarrow>
          (let s = strip v in
           if DATE_RE_match_britimp s then Some s else strptime_formats s))"

fun find_fecha_britimp :: "cell list \<Rightarrow> (string \<times> cell list) option" where
  "find_fecha_britimp [] = None"
| "find_fecha_britimp (c # cs) =
     (case to_ddmmyyyy_britimp c of
        Some f \<Rightarrow> if f \<noteq> [] then Some (f, cs) else find_fecha_britimp cs
      | None \<Rightarrow> find_fecha_britimp cs)"

text \<open>The record of this parser: the amount is the column \<open>IMPORTE\<close>.  Currency, agency,
  file date and the client suffix of the reason come from the whole sheet text and are
  inputs.\<close>

record bco_movement =
  bco_FECHA_OPERACION :: string
  bco_SUCURSAL :: string
  bco_RECIBO :: string
  bco_BULTOS :: "int option"
  IMPORTE :: rat
  bco_MONEDA :: string
  bco_ING_EGR :: string
  bco_CLASIFICACION :: string
  bco_FECHA_ARCHIVO :: "string option"
  bco_MOTIVO_MOVIMIENTO :: string
  bco_AGENCIA :: string
  bco_ARCHIVO_ORIGEN :: string

record bco_ctx =
  bco_moneda :: string
  bco_agencia :: string
  bco_fecha_archivo :: "string option"
  extra_cliente :: string
  bco_archivo_origen :: string

record bco_state =
  current_section :: "string option"
  current_motivo :: "string option"

definition truthy :: "string option \<Rightarrow> bool" where
  "truthy v = (case v of None \<Rightarrow> False | Some s \<Rightarrow> s \<noteq> [])"

text \<open>\<open>(current_motivo or current_section)\<close>, read where a section is set.\<close>

definition bco_motivo_or_section :: "bco_state \<Rightarrow> string" where
  "bco_motivo_or_section st =
     (case current_motivo st of
        Some m \<Rightarrow> if m \<noteq> [] then m else (case current_section st of Some s \<Rightarrow> s | None \<Rightarrow> [])
      | None \<Rightarrow> (case current_section st of Some s \<Rightarrow> s | None \<Rightarrow> []))"

text \<open>\<open>max(importe_candidates)\<close> of a list that is not empty.\<close>

definition py_max :: "rat list \<Rightarrow> rat" where
  "py_max xs = foldl max (hd xs) (tl xs)"

text \<open>The data-row part of the loop body (lines 371 to 395).  The receipt scan has no
  \<open>continue\<close>: when no cell has five digits it leaves \<open>idx\<close> at the end of the row, and
  no cell is left for the amount.\<close>

definition bco_data_row :: "bco_ctx \<Rightarrow> bco_state \<Rightarrow> cell list \<Rightarrow> bco_movement list" where
  "bco_data_row ctx st row =
     (case find_fecha_britimp row of
        None \<Rightarrow> []
      | Some (fecha, r1) \<Rightarrow>
          (case find_sucursal r1 of
             None \<Rightarrow> []
           | Some (sucursal, r2) \<Rightarrow>
               (let (recibo, r3) = (case find_recibo r2 of None \<Rightarrow> ([], []) | Some p \<Rightarrow> p);
                    importe_candidates = collect_nums r3
                in if importe_candidates = [] then []
                   else [\<lparr>bco_FECHA_OPERACION = fecha,
                          bco_SUCURSAL = sucursal,
                          bco_RECIBO = recibo,
                          bco_BULTOS = None,
                          IMPORTE = py_max importe_candidates,
                          bco_MONEDA = bco_moneda ctx,
                          bco_ING_EGR = (if current_section st = Some ''INGRESOS'' then ''IN'' else ''OUT''),
                          bco_CLASIFICACION = ''BCO'',
                          bco_FECHA_ARCHIVO = bco_fecha_archivo ctx,
                          bco_MOTIVO_MOVIMIENTO = bco_motivo_or_section st @ extra_cliente ctx,
                          bco_AGENCIA = bco_agencia ctx,
                          bco_ARCHIVO_ORIGEN = bco_archivo_origen ctx\<rparr>])))"

text \<open>The loop body of \<open>parse_ec_efect_bco_xlsx\<close> (lines 356 to 395).\<close>

definition bco_body :: "bco_ctx \<Rightarrow> bco_state \<Rightarrow> cell list \<Rightarrow> (bco_state, bco_movement) step" where
  "bco_body ctx st row =
     (let nonempty = filter (\<lambda>x. \<not> isna x \<and> strip (py_str x) \<noteq> []) row;
          txt = upper (join '' '' (map py_str nonempty))
      in
      if contains ''INFORME DE PROCESOS'' txt then Stop
      else if contains ''INGRESOS'' txt \<and> \<not> contains ''EGRESOS'' txt
        then Next \<lparr>current_section = Some ''INGRESOS'', current_motivo = None\<rparr> []
      else if contains ''EGRESOS'' txt
        then Next \<lparr>current_section = Some ''EGRESOS'', current_motivo = None\<rparr> []
      else if \<not> truthy (current_section st) then Next st []
      else if startswith txt ''TOTAL'' \<or> startswith txt ''SUBTOTAL''
        then Next (st\<lparr>current_motivo := None\<rparr>) []
      else if length nonempty = 1 \<and>
              (case to_ddmmyyyy_britimp (hd nonempty) of None \<Rightarrow> True | Some f \<Rightarrow> f = [])
        then Next (st\<lparr>current_motivo := Some (strip (py_str (hd nonempty)))\<rparr>) []
      else Next st (bco_data_row ctx st row))"

definition parse_ec_efect_bco_xlsx :: "bco_ctx \<Rightarrow> cell list list \<Rightarrow> bco_movement list" where
  "parse_ec_efect_bco_xlsx ctx sheet =
     scan_rows (bco_body ctx) \<lparr>current_section = None, current_motivo = None\<rparr> sheet"

text \<open>The header metadata of the specification's sheet for this parser: no
  \<open>MONEDA: DOLAR\<close>, no \<open>SUC:\<close>, no \<open>BANCO DEL:\<close>, no client line.\<close>

definition spec_bco_ctx :: bco_ctx where
  "spec_bco_ctx = \<lparr>bco_moneda = ''PYG'', bco_agencia = [], bco_fecha_archivo = None,
                   extra_cliente = [], bco_archivo_origen = ''EC_EFECTIVO_BCO.xlsx''\<rparr>"

section \<open>Facts about the numeric normaliser\<close>

lemma digit_not_special:
  "is_digit c \<Longrightarrow> c \<noteq> CHR '','' \<and> c \<noteq> CHR ''.'' \<and> c \<noteq> CHR ''-'' \<and> c \<noteq> CHR ''+'' \<and>
     c \<noteq> CHR ''('' \<and> c \<noteq> CHR '')'' \<and> c \<noteq> CHR '' '' \<and> c \<noteq> nbsp \<and> \<not> is_space c"
  by (auto simp: is_digit_def is_space_def nbsp_def Let_def)

lemma special_not_digit:
  "\<not> is_digit CHR '',''" "\<not> is_digit CHR ''.''" "\<not> is_space CHR '',''" "\<not> is_space CHR ''.''"
  "CHR '','' \<noteq> nbsp" "CHR ''.'' \<noteq> nbsp"
  by (auto simp: is_digit_def is_space_def nbsp_def Let_def)

lemma replace_absent: "c \<notin> set s \<Longrightarrow> replace [c] new s = s"
  by (induction s) auto

lemma dropWhile_hd: "s \<noteq> [] \<Longrightarrow> \<not> P (hd s) \<Longrightarrow> dropWhile P s = s"
  by (cases s) auto

lemma strip_id: "s = [] \<or> (\<not> is_space (hd s) \<and> \<not> is_space (last s)) \<Longrightarrow> strip s = s"
  by (cases "s = []") (auto simp: strip_def dropWhile_hd hd_rev)

lemma split_no_sep: "sep \<notin> set s \<Longrightarrow> split sep s = [s]"
  by (induction s) auto

lemma split_one_sep: "sep \<notin> set a \<Longrightarrow> sep \<notin> set b \<Longrightarrow> split sep (a @ sep # b) = [a, b]"
  by (induction a) (auto simp: split_no_sep)

lemma replace_one_sep: "sep \<notin> set a \<Longrightarrow> sep \<notin> set b \<Longrightarrow> replace [sep] new (a @ sep # b) = a @ new @ b"
  by (induction a) (auto simp: replace_absent)

lemma foldl_dec: "foldl (\<lambda>a c. 10 * a + digit_val c) n b = n * 10 ^ length b + dec_value b"
proof (induction b arbitrary: n)
  case Nil show ?case by (simp add: dec_value_def)
next
  case (Cons x xs)
  have "dec_value (x # xs) = digit_val x * 10 ^ length xs + dec_value xs"
    using Cons.IH[of "digit_val x"] by (simp add: dec_value_def)
  then show ?case using Cons.IH[of "10 * n + digit_val x"] by (simp add: algebra_simps)
qed

lemma dec_value_append: "dec_value (a @ b) = dec_value a * 10 ^ length b + dec_value b"
  using foldl_dec[of "dec_value a" b] by (simp add: dec_value_def)

lemma takeWhile_digits: "list_all is_digit a \<Longrightarrow> \<not> is_digit c \<Longrightarrow> takeWhile is_digit (a @ c # b) = a"
  by (induction a) auto
lemma dropWhile_digits: "list_all is_digit a \<Longrightarrow> \<not> is_digit c \<Longrightarrow> dropWhile is_digit (a @ c # b) = c # b"
  by (induction a) auto
lemma takeWhile_all: "list_all is_digit a \<Longrightarrow> takeWhile is_digit a = a"
  by (induction a) auto
lemma dropWhile_all: "list_all is_digit a \<Longrightarrow> dropWhile is_digit a = []"
  by (induction a) auto

lemma py_float_digits:
  assumes "list_all is_digit a" "a \<noteq> []"
  shows "py_float a = Some (of_nat (dec_value a))"
proof -
  obtain c r where a: "a = c # r" using assms(2) by (cases a) auto
  with assms(1) have "is_digit c" by simp
  then have "c \<noteq> CHR ''-''" "c \<noteq> CHR ''+''" using digit_not_special by blast+
  then show ?thesis
    using assms by (simp add: py_float_def a py_float_unsigned_def takeWhile_all[OF assms(1)[unfolded a]]
      dropWhile_all[OF assms(1)[unfolded a]] del: takeWhile.simps dropWhile.simps)
qed

lemma py_float_point:
  assumes "list_all is_digit a" "list_all is_digit b"
  shows "py_float (a @ ''.'' @ b) =
     (if a = [] \<and> b = [] then None
      else Some (of_nat (dec_value a) + of_nat (dec_value b) / 10 ^ length b))"
proof -
  have u: "py_float_unsigned (a @ ''.'' @ b) =
     (if a = [] \<and> b = [] then None
      else Some (of_nat (dec_value a) + of_nat (dec_value b) / 10 ^ length b))"
    using assms
    by (simp add: py_float_unsigned_def takeWhile_digits dropWhile_digits special_not_digit)
  have "hd (a @ ''.'' @ b) \<noteq> CHR ''-'' \<and> hd (a @ ''.'' @ b) \<noteq> CHR ''+''"
    using assms(1) digit_not_special by (cases a) auto
  then have "py_float (a @ ''.'' @ b) = py_float_unsigned (a @ ''.'' @ b)"
    by (cases "a @ ''.'' @ b") (auto simp: py_float_def)
  with u show ?thesis by simp
qed

lemma numeric_text_lone_comma:
  assumes a: "list_all is_digit a" and b: "list_all is_digit b"
  shows "numeric_text (a @ '','' @ b) = Some (False, if length b \<le> 2 then a @ ''.'' @ b else a @ b)"
proof -
  let ?s = "a @ '','' @ b"
  have da: "\<And>c. c \<in> set a \<Longrightarrow> is_digit c" and db: "\<And>c. c \<in> set b \<Longrightarrow> is_digit c"
    using a b by (simp_all add: list_all_iff)
  have kept: "filter num_kept ?s = ?s"
    using da db by (auto simp: num_kept_def filter_id_conv)
  have nonb: "nbsp \<notin> set ?s" "CHR '' '' \<notin> set ?s" "CHR ''.'' \<notin> set ?s"
    using da db digit_not_special special_not_digit by auto
  have ca: "CHR '','' \<notin> set a" and cb: "CHR '','' \<notin> set b"
    using da db digit_not_special by blast+
  have ends: "\<not> is_space (hd ?s) \<and> \<not> is_space (last ?s) \<and> hd ?s \<noteq> CHR ''(''"
    using da db digit_not_special special_not_digit
    by (cases a; cases b rule: rev_cases) auto
  have st: "strip ?s = ?s" using ends by (intro strip_id) simp
  have nostart: "\<not> startswith ?s ''(''"
    using ends by (cases ?s) auto
  have fx: "fix_separators ?s = (if length b \<le> 2 then a @ ''.'' @ b else a @ b)"
    using nonb(3) split_one_sep[OF ca cb] replace_one_sep[OF ca cb, of "''.''"]
      replace_one_sep[OF ca cb, of "[]"]
    by (simp add: fix_separators_def)
  show ?thesis
    unfolding numeric_text_def kept replace_absent[OF nonb(1)] st Let_def
    using nostart fx replace_absent[OF nonb(2), of "[]"] by simp
qed

lemma parse_numeric_lone_comma:
  assumes a: "list_all is_digit a" and b: "list_all is_digit b"
  shows "parse_numeric_str (a @ '','' @ b) =
     (if length b \<le> 2
      then (if a = [] \<and> b = [] then None
            else Some (of_nat (dec_value a) + of_nat (dec_value b) / 10 ^ length b))
      else Some (of_nat (dec_value a * 10 ^ length b + dec_value b)))"
proof (cases "length b \<le> 2")
  case True
  then show ?thesis
    using numeric_text_lone_comma[OF a b] py_float_point[OF a b]
    by (simp add: parse_numeric_str_def)
next
  case False
  then have "a @ b \<noteq> []" by auto
  moreover have "list_all is_digit (a @ b)" using a b by simp
  ultimately have "py_float (a @ b) = Some (of_nat (dec_value (a @ b)))"
    by (rule py_float_digits[rotated])
  then show ?thesis
    using False numeric_text_lone_comma[OF a b]
    by (simp add: parse_numeric_str_def dec_value_append)
qed



lemma dots_simps [simp]: "dots [] = 0" "dots (c # s) = (if c = CHR ''.'' then 1 else 0) + dots s"
  "dots (a @ b) = dots a + dots b"
  by (simp_all add: dots_def)

lemma dots_digits: "list_all is_digit s \<Longrightarrow> dots s = 0"
  using special_not_digit by (induction s) auto

lemma py_float_unsigned_dots: "py_float_unsigned s = Some x \<Longrightarrow> dots s \<le> 1"
proof -
  assume h: "py_float_unsigned s = Some x"
  have s: "dots s = dots (takeWhile is_digit s) + dots (dropWhile is_digit s)"
    by (metis dots_simps(3) takeWhile_dropWhile_id)
  have t: "dots (takeWhile is_digit s) = 0"
    by (rule dots_digits) (induction s, auto)
  have "dots (dropWhile is_digit s) \<le> 1"
  proof (cases "dropWhile is_digit s")
    case Nil then show ?thesis by (simp only: dots_simps(1))
  next
    case (Cons c fr)
    with h have "list_all is_digit fr"
      by (simp add: py_float_unsigned_def Let_def split: if_splits)
    then show ?thesis using Cons by (simp add: dots_digits)
  qed
  then show ?thesis using t s by linarith
qed

lemma py_float_dots: "py_float s = Some x \<Longrightarrow> dots s \<le> 1"
  by (cases s) (auto simp: py_float_def split: if_splits dest: py_float_unsigned_dots)

lemma dots_filter_kept: "dots (filter num_kept s) = dots s"
  by (induction s) (auto simp: num_kept_def)

lemma dots_replace: "x \<noteq> CHR ''.'' \<Longrightarrow> dots new = 0 \<Longrightarrow> dots (replace [x] new s) = dots s"
  by (induction s) auto

lemma dots_dropWhile_space: "dots (dropWhile is_space s) = dots s"
  using special_not_digit by (induction s) auto

lemma dots_rev: "dots (rev s) = dots s"
  by (induction s) auto

lemma dots_strip: "dots (strip s) = dots s"
  by (simp add: strip_def dots_rev dots_dropWhile_space)

lemma dots_unparen: "startswith s ''('' \<Longrightarrow> endswith_char s CHR '')'' \<Longrightarrow> dots (butlast (tl s)) = dots s"
proof -
  assume h: "startswith s ''(''" "endswith_char s CHR '')''"
  then obtain r where s: "s = CHR ''('' # r" by (cases s) auto
  show ?thesis
  proof (cases r rule: rev_cases)
    case Nil then show ?thesis using s by simp
  next
    case (snoc ys y)
    then have "y = CHR '')''" using h(2) s by (simp add: endswith_char_def)
    then show ?thesis using s snoc by simp
  qed
qed

lemma set_replace: "set (replace [x] new s) \<subseteq> set s \<union> set new"
  by (induction s) auto

lemma set_strip: "set (strip s) \<subseteq> set s"
proof
  fix x assume "x \<in> set (strip s)"
  then have "x \<in> set (dropWhile is_space (rev (dropWhile is_space s)))" by (simp add: strip_def)
  then have "x \<in> set (rev (dropWhile is_space s))" by (rule set_dropWhileD)
  then have "x \<in> set (dropWhile is_space s)" by simp
  then show "x \<in> set s" by (rule set_dropWhileD)
qed

lemma numeric_text_dots:
  assumes "numeric_text s = Some (neg, t)" "CHR '','' \<notin> set s"
  shows "dots t = dots s"
proof -
  define s0 where "s0 = strip (replace [nbsp] '' '' (filter num_kept s))"
  define s1 where "s1 = (if startswith s0 ''('' \<and> endswith_char s0 CHR '')'' then strip (butlast (tl s0)) else s0)"
  define s2 where "s2 = replace '' '' [] s1"
  have t: "t = fix_separators s2"
    using assms(1) by (auto simp: numeric_text_def Let_def s0_def s1_def s2_def split: if_splits)
  have d0: "dots s0 = dots s"
    by (simp add: s0_def dots_strip dots_replace dots_filter_kept nbsp_def)
  have d1: "dots s1 = dots s0"
    by (simp add: s1_def dots_strip dots_unparen)
  have d2: "dots s2 = dots s1"
    by (simp add: s2_def dots_replace)
  have "set s0 \<subseteq> set s \<union> {CHR '' ''}"
    using set_strip[of "replace [nbsp] '' '' (filter num_kept s)"] set_replace[of nbsp "'' ''" "filter num_kept s"]
    by (auto simp: s0_def)
  moreover have "set s1 \<subseteq> set s0"
    using set_strip[of "butlast (tl s0)"] in_set_butlastD[of _ "tl s0"] list.set_sel(2)[of s0]
    by (cases "s0 = []") (auto simp: s1_def)
  moreover have "set s2 \<subseteq> set s1"
    using set_replace[of "CHR '' ''" "[]" s1] by (simp add: s2_def)
  ultimately have "CHR '','' \<notin> set s2" using assms(2) by auto
  then have "fix_separators s2 = s2" by (simp add: fix_separators_def)
  with t d0 d1 d2 show ?thesis by simp
qed

lemma parse_numeric_many_dots:
  assumes "CHR '','' \<notin> set s" "2 \<le> dots s"
  shows "parse_numeric_str s = None"
proof (cases "numeric_text s")
  case None then show ?thesis by (simp add: parse_numeric_str_def)
next
  case (Some p)
  obtain neg t where p: "p = (neg, t)" by (cases p)
  have "dots t = dots s" using numeric_text_dots Some p assms(1) by blast
  then have "py_float t = None" using py_float_dots[of t] assms(2) by (cases "py_float t") auto
  then show ?thesis using Some p by (simp add: parse_numeric_str_def)
qed

text \<open>The three versions of \<open>parse_numeric\<close> rewrite the separators alike: the version of
  britimp_consolidado_v4.py is written differently and computes the same text.\<close>

lemma rfind_from_spec:
  "(rfind_from c s i acc = acc \<and> c \<notin> set s) \<or>
   (i \<le> rfind_from c s i acc \<and> rfind_from c s i acc < i + int (length s) \<and>
    s ! nat (rfind_from c s i acc - i) = c)"
proof (induction s arbitrary: i acc)
  case Nil
  show ?case by simp
next
  case (Cons x xs)
  let ?acc = "if x = c then i else acc"
  let ?r = "rfind_from c xs (i + 1) ?acc"
  have r: "rfind_from c (x # xs) i acc = ?r" by simp
  from Cons.IH[of "i + 1" ?acc]
  consider (absent) "?r = ?acc" "c \<notin> set xs"
    | (found) "i + 1 \<le> ?r" "?r < i + 1 + int (length xs)" "xs ! nat (?r - (i + 1)) = c"
    by blast
  then show ?case
  proof cases
    case absent
    then show ?thesis unfolding r by (cases "x = c") auto
  next
    case found
    have "nat (?r - i) = Suc (nat (?r - (i + 1)))" using found(1) by linarith
    then have "(x # xs) ! nat (?r - i) = c" using found(3) by simp
    then show ?thesis unfolding r using found(1,2) by auto
  qed
qed

lemma rfind_points_at:
  assumes "c \<in> set s"
  shows "0 \<le> rfind c s \<and> s ! nat (rfind c s) = c"
  using rfind_from_spec[of c s 0 "- 1"] assms by (auto simp: rfind_def)

lemma rfind_distinct:
  assumes "c \<in> set s" and "d \<in> set s" and "c \<noteq> d"
  shows "rfind c s \<noteq> rfind d s"
  using rfind_points_at[OF assms(1)] rfind_points_at[OF assms(2)] assms(3) by metis

lemma replace_removes: "c \<notin> set (replace [c] [] s)"
  by (induction s) auto

lemma fix_separators_britimp_eq: "fix_separators_britimp s = fix_separators s"
proof (cases "CHR '','' \<in> set s \<and> CHR ''.'' \<in> set s")
  case True
  then have ne: "rfind CHR ''.'' s \<noteq> rfind CHR '','' s"
    using rfind_distinct[of "CHR ''.''" s "CHR '',''"] by simp
  have id: "replace '','' ''.'' (replace '','' [] s) = replace '','' [] s"
    by (rule replace_absent) (rule replace_removes)
  show ?thesis
    using True ne id by (auto simp: fix_separators_britimp_def fix_separators_def)
next
  case False
  then show ?thesis by (auto simp: fix_separators_britimp_def fix_separators_def)
qed

section \<open>Facts about the consolidated writer\<close>

lemma OUTPUT_FILES_inj:
  assumes "OUTPUT_FILES t = Some p" and "OUTPUT_FILES t' = Some p"
  shows "t = t'"
  using assms by (auto simp: OUTPUT_FILES_def split: if_splits)

lemma write_v3_skip:
  "OUTPUT_FILES t = None \<or> df_empty d \<Longrightarrow> write_consolidated_v3 t d st = (st, None)"
  by (auto simp: write_consolidated_v3_def split: option.splits)

lemma write_v3_files:
  assumes "OUTPUT_FILES t = Some p" and "\<not> df_empty d"
  shows "files (fst (write_consolidated_v3 t d st)) =
           (files st)(p \<mapsto> (if t \<in> RUN_WRITTEN st then old_content st p
                               else [Header (cols_v3 t d)]) @ data_records_v3 t d)"
    and "RUN_WRITTEN (fst (write_consolidated_v3 t d st)) = insert t (RUN_WRITTEN st)"
  using assms
  by (auto simp: write_consolidated_v3_def Let_def to_csv_def csv_records_def old_content_def
      data_records_v3_def cols_v3_def select_cols_def)

lemma writes_of_Cons:
  "writes_of tipo ((t, d) # ws) =
     (if t = tipo \<and> \<not> df_empty d then d # writes_of tipo ws else writes_of tipo ws)"
  by (simp add: writes_of_def)

lemma run_writes_v3_Cons:
  "run_writes_v3 st ((t, d) # ws) = run_writes_v3 (fst (write_consolidated_v3 t d st)) ws"
  by (simp add: run_writes_v3_def)

lemma run_writes_v3_file_general:
  assumes p: "OUTPUT_FILES tipo = Some p"
  shows "files (run_writes_v3 st ws) p =
     (case writes_of tipo ws of
        [] \<Rightarrow> files st p
      | d # ds \<Rightarrow>
          Some ((if tipo \<in> RUN_WRITTEN st then old_content st p else [Header (cols_v3 tipo d)]) @
                concat (map (data_records_v3 tipo) (d # ds))))"
proof (induction ws arbitrary: st)
  case Nil
  show ?case by (simp add: run_writes_v3_def writes_of_def)
next
  case (Cons w ws)
  obtain t d where w: "w = (t, d)" by (cases w)
  let ?st = "fst (write_consolidated_v3 t d st)"
  note IH = Cons.IH[of ?st]
  show ?case
  proof (cases "t = tipo \<and> \<not> df_empty d")
    case True
    have f: "files ?st p = Some ((if tipo \<in> RUN_WRITTEN st then old_content st p
                                  else [Header (cols_v3 tipo d)]) @ data_records_v3 tipo d)"
      and r: "tipo \<in> RUN_WRITTEN ?st"
      using write_v3_files[OF p, of d st] True by simp_all
    have o: "old_content ?st p = (if tipo \<in> RUN_WRITTEN st then old_content st p
                                  else [Header (cols_v3 tipo d)]) @ data_records_v3 tipo d"
      using f by (simp add: old_content_def)
    have wr: "writes_of tipo (w # ws) = d # writes_of tipo ws"
      using True by (simp add: w writes_of_Cons)
    have "files (run_writes_v3 st (w # ws)) p = files (run_writes_v3 ?st ws) p"
      by (simp add: w run_writes_v3_Cons)
    also have "\<dots> = (case writes_of tipo ws of
        [] \<Rightarrow> files ?st p
      | d' # ds \<Rightarrow> Some (old_content ?st p @ concat (map (data_records_v3 tipo) (d' # ds))))"
      using IH r by (simp split: list.splits)
    also have "\<dots> = Some ((if tipo \<in> RUN_WRITTEN st then old_content st p
                              else [Header (cols_v3 tipo d)]) @
                            concat (map (data_records_v3 tipo) (d # writes_of tipo ws)))"
      by (simp add: f o split: list.splits)
    finally show ?thesis by (simp add: wr)
  next
    case False
    have same: "files ?st p = files st p \<and> (tipo \<in> RUN_WRITTEN ?st \<longleftrightarrow> tipo \<in> RUN_WRITTEN st)"
    proof (cases "OUTPUT_FILES t = None \<or> df_empty d")
      case True
      then show ?thesis by (simp add: write_v3_skip)
    next
      case F: False
      then obtain q where q: "OUTPUT_FILES t = Some q" and ne: "\<not> df_empty d" by auto
      with False have "t \<noteq> tipo" by simp
      then have "q \<noteq> p" using OUTPUT_FILES_inj[OF q] p by auto
      then show ?thesis using write_v3_files[OF q ne, of st] \<open>t \<noteq> tipo\<close> by simp
    qed
    then have o: "old_content ?st p = old_content st p" by (simp add: old_content_def)
    have wr: "writes_of tipo (w # ws) = writes_of tipo ws"
      using False by (simp add: w writes_of_Cons)
    have "files (run_writes_v3 st (w # ws)) p = files (run_writes_v3 ?st ws) p"
      by (simp add: w run_writes_v3_Cons)
    also have "\<dots> = (case writes_of tipo ws of
        [] \<Rightarrow> files st p
      | d' # ds \<Rightarrow>
          Some ((if tipo \<in> RUN_WRITTEN st then old_content st p else [Header (cols_v3 tipo d')]) @
                concat (map (data_records_v3 tipo) (d' # ds))))"
      using IH same o by (simp split: list.splits)
    finally show ?thesis by (simp add: wr)
  qed
qed

text \<open>
  The writer of consolidado_v3.py keeps the once-per-run header: after a run that starts
  with \<open>RUN_WRITTEN\<close> empty, whatever the output folder held, the file of a type that
  received a non-empty frame is one header (that of the first such frame) followed by the
  data records of all such frames in the order of the calls; the file of a type that
  received none is untouched.
\<close>

lemma run_writes_v3_one_header:
  assumes "OUTPUT_FILES tipo = Some p" and "RUN_WRITTEN st = {}"
  shows "files (run_writes_v3 st ws) p =
     (case writes_of tipo ws of
        [] \<Rightarrow> files st p
      | d # ds \<Rightarrow> Some (Header (cols_v3 tipo d) # concat (map (data_records_v3 tipo) (d # ds))))"
  using run_writes_v3_file_general[OF assms(1), of st ws] assms(2)
  by (simp split: list.splits)

section \<open>Evaluating the extractors on example rows\<close>

lemma parse_numeric_str_eval:
  "numeric_text v = Some (neg, s) \<Longrightarrow> py_float s = Some x \<Longrightarrow>
     parse_numeric_str v = Some (if neg then - x else x)"
  by (simp add: parse_numeric_str_def)

lemma py_float_plain_eval:
  "py_float ''5000'' = Some 5000" "py_float ''30'' = Some 30"
  "py_float ''5'' = Some 5" "py_float ''1000'' = Some 1000"
  by (simp_all add: py_float_def py_float_unsigned_def is_digit_def dec_value_def digit_val_def)

lemma numeric_text_plain_eval:
  "numeric_text ''5000'' = Some (False, ''5000'')" "numeric_text ''30'' = Some (False, ''30'')"
  "numeric_text ''5'' = Some (False, ''5'')" "numeric_text ''1000'' = Some (False, ''1000'')"
  by code_simp+

lemma collect_nums_example: "collect_nums [Str ''5000'', Str ''30''] = [5000, 30]"
  using parse_numeric_str_eval[OF numeric_text_plain_eval(1) py_float_plain_eval(1)]
    parse_numeric_str_eval[OF numeric_text_plain_eval(2) py_float_plain_eval(2)]
  by (simp add: collect_nums_def List.map_filter_simps parse_numeric_def)

lemma collect_nums_example2: "collect_nums [Str ''5'', Str ''1000''] = [5, 1000]"
  using parse_numeric_str_eval[OF numeric_text_plain_eval(3) py_float_plain_eval(3)]
    parse_numeric_str_eval[OF numeric_text_plain_eval(4) py_float_plain_eval(4)]
  by (simp add: collect_nums_def List.map_filter_simps parse_numeric_def)

lemma scan_rows_two:
  "body st0 r1 = Next st1 [] \<Longrightarrow> body st1 r2 = Next st2 recs \<Longrightarrow>
     scan_rows body st0 [r1, r2] = recs"
  by simp

lemma header_row_generic:
  "generic_body ctx initial_state [Str ''INGRESOS'', NaN, NaN, NaN, NaN] =
     Next \<lparr>sect = Some ''INGRESOS'', motivo = None, started = True\<rparr> []"
proof -
  have t: "upper (row_text [Str ''INGRESOS'', NaN, NaN, NaN, NaN]) = ''INGRESOS''" by code_simp
  have c: "\<not> contains ''SALDO ANTERIOR'' ''INGRESOS'' \<and> contains ''INGRESOS'' ''INGRESOS'' \<and>
           \<not> contains ''EGRESOS'' ''INGRESOS''" by code_simp
  show ?thesis by (simp add: generic_body_def t c)
qed

lemma header_row_bultos:
  "bultos_body ctx initial_state [Str ''INGRESOS'', NaN, NaN, NaN, NaN] =
     Next \<lparr>sect = Some ''INGRESOS'', motivo = None, started = True\<rparr> []"
proof -
  have t: "upper (row_text [Str ''INGRESOS'', NaN, NaN, NaN, NaN]) = ''INGRESOS''" by code_simp
  have c: "\<not> contains ''SALDO ANTERIOR'' ''INGRESOS'' \<and> contains ''INGRESOS'' ''INGRESOS'' \<and>
           \<not> contains ''EGRESOS'' ''INGRESOS''" by code_simp
  show ?thesis by (simp add: bultos_body_def t c)
qed

lemma example_row_scans:
  "find_fecha [Str ''01/01/2024'', Str ''ASU'', Str ''123456'', a, b] =
     Some (''01/01/2024'', [Str ''ASU'', Str ''123456'', a, b])"
  "find_fecha_britimp [Str ''01/01/2024'', Str ''ASU'', Str ''123456'', a, b] =
     Some (''01/01/2024'', [Str ''ASU'', Str ''123456'', a, b])"
  "find_sucursal [Str ''ASU'', Str ''123456'', a, b] = Some (''ASU'', [Str ''123456'', a, b])"
  "find_recibo [Str ''123456'', a, b] = Some (''123456'', [a, b])"
proof -
  have d: "to_ddmmyyyy (Str ''01/01/2024'') = Some ''01/01/2024''" by code_simp
  have db: "to_ddmmyyyy_britimp (Str ''01/01/2024'') = Some ''01/01/2024''" by code_simp
  have s: "strip (py_str (Str ''ASU'')) = ''ASU''" by code_simp
  have r: "clean_digits (Str ''123456'') = ''123456''" by code_simp
  show "find_fecha [Str ''01/01/2024'', Str ''ASU'', Str ''123456'', a, b] =
     Some (''01/01/2024'', [Str ''ASU'', Str ''123456'', a, b])" by (simp add: d)
  show "find_fecha_britimp [Str ''01/01/2024'', Str ''ASU'', Str ''123456'', a, b] =
     Some (''01/01/2024'', [Str ''ASU'', Str ''123456'', a, b])" by (simp add: db)
  show "find_sucursal [Str ''ASU'', Str ''123456'', a, b] = Some (''ASU'', [Str ''123456'', a, b])"
    by (simp add: s)
  show "find_recibo [Str ''123456'', a, b] = Some (''123456'', [a, b])" by (simp add: r)
qed

lemma data_row_generic_reached:
  "generic_body ctx \<lparr>sect = Some ''INGRESOS'', motivo = None, started = True\<rparr>
      [Str ''01/01/2024'', Str ''ASU'', Str ''123456'', Str ''5000'', Str ''30''] =
     Next \<lparr>sect = Some ''INGRESOS'', motivo = None, started = True\<rparr>
       (generic_data_row ctx \<lparr>sect = Some ''INGRESOS'', motivo = None, started = True\<rparr>
          [Str ''01/01/2024'', Str ''ASU'', Str ''123456'', Str ''5000'', Str ''30''])"
proof -
  have t: "upper (row_text [Str ''01/01/2024'', Str ''ASU'', Str ''123456'', Str ''5000'', Str ''30''])
             = ''01/01/2024 ASU 123456 5000 30''" by code_simp
  have c: "\<not> contains ''SALDO ANTERIOR'' ''01/01/2024 ASU 123456 5000 30'' \<and>
           \<not> contains ''INGRESOS'' ''01/01/2024 ASU 123456 5000 30'' \<and>
           \<not> contains ''EGRESOS'' ''01/01/2024 ASU 123456 5000 30'' \<and>
           \<not> contains ''INFORME DE PROCESOS'' ''01/01/2024 ASU 123456 5000 30'' \<and>
           \<not> contains ''INFORME DE ERRORES'' ''01/01/2024 ASU 123456 5000 30'' \<and>
           \<not> contains ''TOTAL'' ''01/01/2024 ASU 123456 5000 30''" by code_simp
  show ?thesis by (simp add: generic_body_def t c in_section_def)
qed

lemma data_row_bultos_reached:
  "bultos_body ctx \<lparr>sect = Some ''INGRESOS'', motivo = None, started = True\<rparr>
      [Str ''01/01/2024'', Str ''ASU'', Str ''123456'', Str ''5'', Str ''1000''] =
     Next \<lparr>sect = Some ''INGRESOS'', motivo = None, started = True\<rparr>
       (bultos_data_row ctx \<lparr>sect = Some ''INGRESOS'', motivo = None, started = True\<rparr>
          [Str ''01/01/2024'', Str ''ASU'', Str ''123456'', Str ''5'', Str ''1000''])"
proof -
  have t: "upper (row_text [Str ''01/01/2024'', Str ''ASU'', Str ''123456'', Str ''5'', Str ''1000''])
             = ''01/01/2024 ASU 123456 5 1000''" by code_simp
  have c: "\<not> contains ''SALDO ANTERIOR'' ''01/01/2024 ASU 123456 5 1000'' \<and>
           \<not> contains ''INGRESOS'' ''01/01/2024 ASU 123456 5 1000'' \<and>
           \<not> contains ''EGRESOS'' ''01/01/2024 ASU 123456 5 1000'' \<and>
           \<not> contains ''INFORME DE PROCESOS'' ''01/01/2024 ASU 123456 5 1000'' \<and>
           \<not> contains ''INFORME DE ERRORES'' ''01/01/2024 ASU 123456 5 1000'' \<and>
           \<not> contains ''TOTAL'' ''01/01/2024 ASU 123456 5 1000''" by code_simp
  have n: "filter (\<lambda>x. strip (py_str x) \<noteq> [] \<and> \<not> isna x)
             [Str ''01/01/2024'', Str ''ASU'', Str ''123456'', Str ''5'', Str ''1000''] =
           [Str ''01/01/2024'', Str ''ASU'', Str ''123456'', Str ''5'', Str ''1000'']"
    by code_simp
  show ?thesis
    unfolding bultos_body_def Let_def t n
    by (simp add: c in_section_def)
qed

lemma is_integer_of_int [simp]: "is_integer (of_int i)"
  by (simp add: is_integer_def)

lemma is_integer_numeral [simp]: "is_integer (numeral k)"
  using is_integer_of_int[of "numeral k"] by simp

lemma generic_data_row_accepted:
  assumes "find_fecha row = Some (fecha, r1)" and "find_sucursal r1 = Some (sucursal, r2)"
    and "find_recibo r2 = Some (recibo, r3)"
  shows "generic_data_row ctx st row =
     [\<lparr>FECHA_OPERACION = fecha, SUCURSAL = sucursal, RECIBO = recibo,
       BULTOS = generic_bultos (collect_nums r3), MONTO = generic_monto (collect_nums r3),
       MONEDA = guess_moneda ''PYG'' r3, ING_EGR = ing_egr st,
       CLASIFICACION = clasificacion ctx, FECHA_ARCHIVO = fecha_archivo ctx,
       MOTIVO_MOVIMIENTO = motivo_or_section st, AGENCIA = agencia ctx,
       ARCHIVO_ORIGEN = archivo_origen ctx\<rparr>]"
  using assms by (simp add: generic_data_row_def Let_def)

lemma bultos_data_row_accepted:
  assumes "find_fecha row = Some (fecha, r1)" and "find_sucursal r1 = Some (sucursal, r2)"
    and "find_recibo r2 = Some (recibo, r3)"
  shows "bultos_data_row ctx st row = bultos_emit ctx st fecha sucursal recibo (collect_nums r3)"
  using assms by (simp add: bultos_data_row_def)

lemma bultos_data_row_rejected:
  "find_fecha row = None \<Longrightarrow> bultos_data_row ctx st row = []"
  "find_fecha row = Some (fecha, r1) \<Longrightarrow> find_sucursal r1 = None \<Longrightarrow> bultos_data_row ctx st row = []"
  "find_fecha row = Some (fecha, r1) \<Longrightarrow> find_sucursal r1 = Some (sucursal, r2) \<Longrightarrow>
     find_recibo r2 = None \<Longrightarrow> bultos_data_row ctx st row = []"
  by (simp_all add: bultos_data_row_def)

lemma pad4_empty: "pad4 [] = [0, 0, 0, 0]"
  by (simp add: pad4_def numeral_eq_Suc)

section \<open>The numeric normaliser: the claims\<close>

text \<open>
  Claim C1.  On text input, \<open>parse_numeric("1.234,56")\<close> is 1234.56,
  \<open>parse_numeric("(100)")\<close> is -100, \<open>parse_numeric("1,5")\<close> is 1.5 and
  \<open>parse_numeric("1,500")\<close> is 1500.  A lone comma between two runs of digits \<open>a\<close> and
  \<open>b\<close> is read as the decimal separator exactly when at most two digits follow it (the
  value is \<open>a + b / 10 ^ length b\<close>; the bare comma with no digit at all is not a number),
  and as a thousands separator otherwise (the value is the integer written \<open>a b\<close>).
\<close>

theorem parse_numeric_examples_and_comma_rule:
  assumes "list_all is_digit a" and "list_all is_digit b"
  shows "parse_numeric_str ''1.234,56'' = Some (123456 / 100) \<and>
         parse_numeric_str ''(100)'' = Some (- 100) \<and>
         parse_numeric_str ''1,5'' = Some (15 / 10) \<and>
         parse_numeric_str ''1,500'' = Some 1500 \<and>
         numeric_text (a @ '','' @ b) =
           Some (False, if length b \<le> 2 then a @ ''.'' @ b else a @ b) \<and>
         parse_numeric_str (a @ '','' @ b) =
           (if length b \<le> 2
            then (if a = [] \<and> b = [] then None
                  else Some (of_nat (dec_value a) + of_nat (dec_value b) / 10 ^ length b))
            else Some (of_nat (dec_value a * 10 ^ length b + dec_value b)))"
proof -
  have n1: "numeric_text ''1.234,56'' = Some (False, ''1234.56'')" by code_simp
  have n2: "numeric_text ''(100)'' = Some (True, ''100'')" by code_simp
  have n3: "numeric_text ''1,5'' = Some (False, ''1.5'')" by code_simp
  have n4: "numeric_text ''1,500'' = Some (False, ''1500'')" by code_simp
  have p1: "py_float ''1234.56'' = Some (123456 / 100)"
    by (simp add: py_float_def py_float_unsigned_def is_digit_def dec_value_def digit_val_def)
  have p2: "py_float ''100'' = Some 100"
    by (simp add: py_float_def py_float_unsigned_def is_digit_def dec_value_def digit_val_def)
  have p3: "py_float ''1.5'' = Some (15 / 10)"
    by (simp add: py_float_def py_float_unsigned_def is_digit_def dec_value_def digit_val_def)
  have p4: "py_float ''1500'' = Some 1500"
    by (simp add: py_float_def py_float_unsigned_def is_digit_def dec_value_def digit_val_def)
  have e1: "parse_numeric_str ''1.234,56'' = Some (123456 / 100)"
    by (simp add: parse_numeric_str_def n1 p1)
  have e2: "parse_numeric_str ''(100)'' = Some (- 100)"
    by (simp add: parse_numeric_str_def n2 p2)
  have e3: "parse_numeric_str ''1,5'' = Some (15 / 10)"
    by (simp add: parse_numeric_str_def n3 p3)
  have e4: "parse_numeric_str ''1,500'' = Some 1500"
    by (simp add: parse_numeric_str_def n4 p4)
  show ?thesis
    using e1 e2 e3 e4 numeric_text_lone_comma[OF assms] parse_numeric_lone_comma[OF assms]
    by simp
qed

theorem parse_numeric_comma_rule_witness:
  "list_all is_digit ''12'' \<and> list_all is_digit ''34'' \<and> list_all is_digit ''345'' \<and>
   parse_numeric_str ''12,34'' = Some (1234 / 100) \<and>
   parse_numeric_str ''12,345'' = Some 12345"
proof -
  have d1: "list_all is_digit ''12''" by (simp add: is_digit_def)
  have d2: "list_all is_digit ''34''" by (simp add: is_digit_def)
  have d3: "list_all is_digit ''345''" by (simp add: is_digit_def)
  have v1: "rat_of_nat (dec_value ''12'') + rat_of_nat (dec_value ''34'') / 10 ^ length ''34'' = 1234 / 100"
    by (simp add: dec_value_def digit_val_def)
  have v2: "rat_of_nat (dec_value ''12'' * 10 ^ length ''345'' + dec_value ''345'') = 12345"
    by (simp add: dec_value_def digit_val_def)
  from parse_numeric_examples_and_comma_rule[OF d1 d2] v1
  have a: "parse_numeric_str ''12,34'' = Some (1234 / 100)" by simp
  from parse_numeric_examples_and_comma_rule[OF d1 d3] v2
  have b: "parse_numeric_str ''12,345'' = Some 12345" by simp
  show ?thesis using d1 d2 d3 a b by simp
qed

text \<open>
  Claim C9.  \<open>parse_numeric\<close> returns \<open>None\<close> for every text with two or more points
  and no comma, such as \<open>"1.000.000"\<close>: the points are handed to \<open>float\<close> as they are,
  and \<open>float\<close> refuses a second point.
\<close>

theorem parse_numeric_dot_grouped_unparsed:
  assumes "CHR '','' \<notin> set s" and "2 \<le> dots s"
  shows "parse_numeric_str s = None"
  using assms by (rule parse_numeric_many_dots)

theorem parse_numeric_dot_grouped_witness:
  "CHR '','' \<notin> set ''1.000.000'' \<and> 2 \<le> dots ''1.000.000'' \<and>
   parse_numeric_str ''1.000.000'' = None"
proof -
  have c: "CHR '','' \<notin> set ''1.000.000''" by simp
  have d: "2 \<le> dots ''1.000.000''" by (simp add: dots_def)
  show ?thesis using c d parse_numeric_dot_grouped_unparsed[OF c d] by simp
qed

section \<open>The consolidated writer: the claims\<close>

text \<open>
  Claim C2, evaluated on \<open>write_consolidated\<close> of britimp_consolidado_v4.py.  The output
  folder already holds the day's file of type \<open>EC_EFECT_BCO\<close> (one header and one row, left
  by an earlier run of the same day) and \<open>RUN_WRITTEN\<close> is empty.  The first write of the new
  run leaves the old records in place and appends its header and its row after them: the
  file has two headers.  The writer of consolidado_v3.py, on the same input, ends with one
  header followed by the new row.
\<close>

theorem write_consolidated_britimp_keeps_old_file:
  "files (write_consolidated_britimp ''EC_EFECT_BCO''
            \<lparr>columns = [''RECIBO'', ''IMPORTE''], rows = [[''654321'', ''9'']]\<rparr>
            \<lparr>files = [''BRITIMP_EFECTBANCO.csv'' \<mapsto>
                        [Header [''RECIBO'', ''IMPORTE''], Data [''123456'', ''7'']]],
             RUN_WRITTEN = {}\<rparr>) ''BRITIMP_EFECTBANCO.csv'' =
     Some [Header [''RECIBO'', ''IMPORTE''], Data [''123456'', ''7''],
           Header [''RECIBO'', ''IMPORTE''], Data [''654321'', ''9'']] \<and>
   files (fst (write_consolidated_v3 ''EC_EFECT_BCO''
            \<lparr>columns = [''RECIBO'', ''IMPORTE''], rows = [[''654321'', ''9'']]\<rparr>
            \<lparr>files = [''BRITIMP_EFECTBANCO.csv'' \<mapsto>
                        [Header [''RECIBO'', ''IMPORTE''], Data [''123456'', ''7'']]],
             RUN_WRITTEN = {}\<rparr>)) ''BRITIMP_EFECTBANCO.csv'' =
     Some [Header [''RECIBO'', ''IMPORTE''], Data [''654321'', ''9'']]"
proof -
  have p: "OUTPUT_FILES ''EC_EFECT_BCO'' = Some ''BRITIMP_EFECTBANCO.csv''"
    by (simp add: OUTPUT_FILES_def)
  have c: "cols_v3 ''EC_EFECT_BCO'' \<lparr>columns = [''RECIBO'', ''IMPORTE''], rows = [[''654321'', ''9'']]\<rparr>
             = [''RECIBO'', ''IMPORTE'']"
    by (simp add: cols_v3_def wanted_cols_by_tipo_def ec_cols_def)
  have a: "files (write_consolidated_britimp ''EC_EFECT_BCO''
            \<lparr>columns = [''RECIBO'', ''IMPORTE''], rows = [[''654321'', ''9'']]\<rparr>
            \<lparr>files = [''BRITIMP_EFECTBANCO.csv'' \<mapsto>
                        [Header [''RECIBO'', ''IMPORTE''], Data [''123456'', ''7'']]],
             RUN_WRITTEN = {}\<rparr>) ''BRITIMP_EFECTBANCO.csv'' =
     Some [Header [''RECIBO'', ''IMPORTE''], Data [''123456'', ''7''],
           Header [''RECIBO'', ''IMPORTE''], Data [''654321'', ''9'']]"
    by (simp add: write_consolidated_britimp_def p df_empty_def to_csv_def csv_records_def)
  have b: "files (fst (write_consolidated_v3 ''EC_EFECT_BCO''
            \<lparr>columns = [''RECIBO'', ''IMPORTE''], rows = [[''654321'', ''9'']]\<rparr>
            \<lparr>files = [''BRITIMP_EFECTBANCO.csv'' \<mapsto>
                        [Header [''RECIBO'', ''IMPORTE''], Data [''123456'', ''7'']]],
             RUN_WRITTEN = {}\<rparr>)) ''BRITIMP_EFECTBANCO.csv'' =
     Some [Header [''RECIBO'', ''IMPORTE''], Data [''654321'', ''9'']]"
    by (simp add: write_v3_files(1)[OF p] df_empty_def c data_records_v3_def select_cols_def)
  show ?thesis using a b by (rule conjI)
qed



section \<open>The authenticity gate: the claims\<close>

lemma upper_EC_EFECTIVO_ATM: "upper ''EC_EFECTIVO_ATM.xlsx'' = ''EC_EFECTIVO_ATM.XLSX''"
  by code_simp

lemma upper_INV_BILLETES_EFECTIVO_ATM:
  "upper ''INV_BILLETES_EFECTIVO_ATM.pdf'' = ''INV_BILLETES_EFECTIVO_ATM.PDF''"
  by code_simp

text \<open>
  Claim C3 as stated fails in both halves.

  The inventory half fails on the gate of britimp_consolidado_v4.py.  The file
  \<open>INV_BILLETES_EFECTIVO_ATM.pdf\<close> matches the inventory token groups, and with an empty
  preview nothing names the target institution or a competitor.  But EFECTIVO contains
  both EC and EFECT, so the name matches a statement rule as well; the dispatcher tries
  the statement rules first and types the file \<open>EC_EFECT_ATM\<close>, and the gate rejects it.

  The statement half fails on the gates of consolidado_v3.py and consolidado_v4.py, which
  do not look at the type.  The file \<open>EC_EFECTIVO_ATM.xlsx\<close> is statement-named (the
  dispatcher types it \<open>EC_EFECT_ATM\<close>), its preview is empty, so nothing mentions the
  institution; both gates accept it on the shape of its name.
\<close>

theorem gate_asymmetry_fails_as_stated:
  "upper ''INV_BILLETES_EFECTIVO_ATM.pdf'' = ''INV_BILLETES_EFECTIVO_ATM.PDF'' \<and>
   inventory_named ''INV_BILLETES_EFECTIVO_ATM.PDF'' \<and>
   \<not> contains ''ITAU'' ''INV_BILLETES_EFECTIVO_ATM.PDF'' \<and>
   \<not> names_competitor [] ''INV_BILLETES_EFECTIVO_ATM.PDF'' \<and>
   dispatch_tipo_britimp ''INV_BILLETES_EFECTIVO_ATM.PDF'' [] = Some ''EC_EFECT_ATM'' \<and>
   gate_in_process_file_britimp [] ''INV_BILLETES_EFECTIVO_ATM.PDF'' [] = False \<and>
   dispatch_tipo_v3 ''EC_EFECTIVO_ATM.xlsx'' = Some ''EC_EFECT_ATM'' \<and>
   \<not> contains ''ITAU'' (upper ''EC_EFECTIVO_ATM.xlsx'') \<and>
   detect_cliente_itau_v3 [] ''EC_EFECTIVO_ATM.xlsx'' None = True \<and>
   detect_itau_v4 [] ''EC_EFECTIVO_ATM.xlsx'' = True"
proof -
  have a: "inventory_named ''INV_BILLETES_EFECTIVO_ATM.PDF'' \<and>
      \<not> contains ''ITAU'' ''INV_BILLETES_EFECTIVO_ATM.PDF'' \<and>
      \<not> names_competitor [] ''INV_BILLETES_EFECTIVO_ATM.PDF''"
    by code_simp
  have b: "dispatch_tipo_britimp ''INV_BILLETES_EFECTIVO_ATM.PDF'' [] = Some ''EC_EFECT_ATM''"
    by code_simp
  have c: "gate_in_process_file_britimp [] ''INV_BILLETES_EFECTIVO_ATM.PDF'' [] = False"
    by code_simp
  have d: "dispatch_tipo_v3 ''EC_EFECTIVO_ATM.xlsx'' = Some ''EC_EFECT_ATM'' \<and>
      \<not> contains ''ITAU'' (upper ''EC_EFECTIVO_ATM.xlsx'')"
    by code_simp
  have e: "detect_cliente_itau_v3 [] ''EC_EFECTIVO_ATM.xlsx'' None = True \<and>
      detect_itau_v4 [] ''EC_EFECTIVO_ATM.xlsx'' = True"
    by code_simp
  show ?thesis using upper_INV_BILLETES_EFECTIVO_ATM a b c d e by blast
qed

lemma dispatch_britimp_statement:
  assumes "statement_named up"
  shows "dispatch_tipo_britimp up up_text \<in>
           {Some ''EC_BULTO_ATM'', Some ''EC_EFECT_ATM'', Some ''EC_EFECT_BCO''}"
  using assms by (auto simp: statement_named_def dispatch_tipo_britimp_def)

lemma dispatch_britimp_inventory:
  assumes "inventory_named up" and "\<not> statement_named up"
  shows "dispatch_tipo_britimp up up_text \<in> {Some ''INV_BILLETES_ATM'', Some ''INV_BILLETES_BCO''}"
  using assms
  by (auto simp: statement_named_def inventory_named_def dispatch_tipo_britimp_def
      name_matches_upper_def)

lemma truthy_contains_tags:
  "truthy_contains ''EC_'' (Some ''EC_BULTO_ATM'')" "truthy_contains ''EC_'' (Some ''EC_EFECT_ATM'')"
  "truthy_contains ''EC_'' (Some ''EC_EFECT_BCO'')"
  "\<not> truthy_contains ''INV_'' (Some ''EC_BULTO_ATM'')"
  "\<not> truthy_contains ''INV_'' (Some ''EC_EFECT_ATM'')"
  "\<not> truthy_contains ''INV_'' (Some ''EC_EFECT_BCO'')"
  "truthy_contains ''INV_'' (Some ''INV_BILLETES_ATM'')"
  "truthy_contains ''INV_'' (Some ''INV_BILLETES_BCO'')"
  "\<not> truthy_contains ''EC_'' (Some ''INV_BILLETES_ATM'')"
  "\<not> truthy_contains ''EC_'' (Some ''INV_BILLETES_BCO'')"
  by (simp_all add: truthy_contains_def)

text \<open>
  Claim C3, amended.  In britimp_consolidado_v4.py, where \<open>process_file\<close> hands the gate
  the type that \<open>dispatch_tipo\<close> gives the document, the gate is asymmetric by the kind
  of name.  When neither the preview nor the file name contains ITAU: every
  statement-named document (its name matches the token groups of one of the dispatcher's
  three statement rules) is rejected; every inventory-named document (its name matches
  the inventory token groups INV, BILLETE, and ATM or BCO or BANCO) that is not
  statement-named as well, and that names no competing institution in preview or file
  name, is accepted.  This holds for every file name: \<open>fname_upper\<close> stands for
  \<open>remove_accents(path.name).upper()\<close>.
\<close>

theorem gate_britimp_asymmetric:
  assumes "\<not> contains ''ITAU'' txt" and "\<not> contains ''ITAU'' fname_upper"
  shows "(statement_named fname_upper \<longrightarrow>
            gate_in_process_file_britimp txt fname_upper up_text = False) \<and>
         (inventory_named fname_upper \<and> \<not> statement_named fname_upper \<and>
          \<not> names_competitor txt fname_upper \<longrightarrow>
            gate_in_process_file_britimp txt fname_upper up_text = True)"
proof -
  have s: "gate_in_process_file_britimp txt fname_upper up_text = False"
    if "statement_named fname_upper"
    using dispatch_britimp_statement[OF that, of up_text] assms
    by (auto simp: gate_in_process_file_britimp_def detect_cliente_itau_britimp_def
        truthy_contains_tags)
  have i: "gate_in_process_file_britimp txt fname_upper up_text = True"
    if "inventory_named fname_upper" "\<not> statement_named fname_upper"
      "\<not> names_competitor txt fname_upper"
    using dispatch_britimp_inventory[OF that(1,2), of up_text] that(1,3) assms
    by (auto simp: gate_in_process_file_britimp_def detect_cliente_itau_britimp_def
        truthy_contains_tags inventory_named_def names_competitor_def)
  show ?thesis using s i by blast
qed

theorem gate_britimp_asymmetric_witness:
  "\<not> contains ''ITAU'' [] \<and>
   \<not> contains ''ITAU'' ''EC_EFECTIVO_ATM.XLSX'' \<and>
   \<not> contains ''ITAU'' ''INV_BILLETES_ATM.PDF'' \<and>
   statement_named ''EC_EFECTIVO_ATM.XLSX'' \<and>
   inventory_named ''INV_BILLETES_ATM.PDF'' \<and>
   \<not> statement_named ''INV_BILLETES_ATM.PDF'' \<and>
   \<not> names_competitor [] ''INV_BILLETES_ATM.PDF'' \<and>
   gate_in_process_file_britimp [] ''EC_EFECTIVO_ATM.XLSX'' [] = False \<and>
   gate_in_process_file_britimp [] ''INV_BILLETES_ATM.PDF'' [] = True"
proof -
  have a: "\<not> contains ''ITAU'' []" by simp
  have b: "\<not> contains ''ITAU'' ''EC_EFECTIVO_ATM.XLSX''" by code_simp
  have c: "\<not> contains ''ITAU'' ''INV_BILLETES_ATM.PDF''" by code_simp
  have d: "statement_named ''EC_EFECTIVO_ATM.XLSX''" by code_simp
  have e: "inventory_named ''INV_BILLETES_ATM.PDF''" by code_simp
  have f: "\<not> statement_named ''INV_BILLETES_ATM.PDF''" by code_simp
  have g: "\<not> names_competitor [] ''INV_BILLETES_ATM.PDF''" by code_simp
  from gate_britimp_asymmetric[OF a b, of "[]"] d
  have h: "gate_in_process_file_britimp [] ''EC_EFECTIVO_ATM.XLSX'' [] = False"
    by blast
  from gate_britimp_asymmetric[OF a c, of "[]"] e f g
  have k: "gate_in_process_file_britimp [] ''INV_BILLETES_ATM.PDF'' [] = True"
    by blast
  show ?thesis using a b c d e f g h k by blast
qed

text \<open>
  Claim C5, evaluated on \<open>detect_itau\<close> of consolidado_v4.py and on
  \<open>detect_cliente_itau\<close> of consolidado_v3.py.  The file name
  \<open>EC_EFECTIVO_ATM_CONTINENTAL.xlsx\<close> matches the three token groups and contains the name
  of a competing institution.  With an empty preview the gate of consolidado_v4.py
  accepts it: it never looks for a competitor in the file name.  The gate of
  consolidado_v3.py rejects it then, but accepts it when the preview says BANCO ITAU: it
  looks at the file name only after the preview gave no answer.
\<close>

theorem gate_v4_accepts_competitor_in_file_name:
  "name_matches ''EC_EFECTIVO_ATM_CONTINENTAL.xlsx'' pipeline_groups \<and>
   contains ''CONTINENTAL'' (upper ''EC_EFECTIVO_ATM_CONTINENTAL.xlsx'') \<and>
   detect_itau_v4 [] ''EC_EFECTIVO_ATM_CONTINENTAL.xlsx'' = True \<and>
   detect_cliente_itau_v3 [] ''EC_EFECTIVO_ATM_CONTINENTAL.xlsx'' None = False \<and>
   detect_cliente_itau_v3 ''BANCO ITAU'' ''EC_EFECTIVO_ATM_CONTINENTAL.xlsx'' None = True"
  by code_simp

text \<open>The gate of britimp_consolidado_v4.py does what the claim says: a competing
  institution in the preview or in the file name is a rejection, whatever else holds.\<close>

lemma gate_britimp_rejects_competitor:
  assumes "b \<in> set NEGATIVE_BANKS" and "contains b txt \<or> contains b fname_upper"
  shows "detect_cliente_itau_britimp txt fname_upper tipo = False"
proof -
  have "list_ex (\<lambda>b. contains b txt \<or> contains b fname_upper) NEGATIVE_BANKS"
    using assms by (auto simp: list_ex_iff)
  then show ?thesis by (simp add: detect_cliente_itau_britimp_def)
qed

section \<open>The text previewer: the claim\<close>

text \<open>
  Claim C8, evaluated on \<open>file_text_preview\<close> of consolidado_v3.py and consolidado_v4.py.
  The file has the suffix \<open>.xlsx\<close> and is not a workbook: \<open>pd.ExcelFile(p, engine=None)\<close>
  raises, and so does the retry with the engine named.  The retry stands in the
  \<open>except\<close> branch, outside any \<open>try\<close>: its exception leaves the function.  The previewer
  of britimp_consolidado_v4.py returns the empty text on the same file.
\<close>

theorem file_text_preview_v3_raises_on_corrupt_workbook:
  "file_text_preview_v3
     \<lparr>suffix_lower = ''.xlsx'',
      excel_default = Inl (Exception ''ValueError''),
      excel_engine = Inl (Exception ''BadZipFile''),
      xlrd_available = True, PdfReader_available = True,
      pdf_pages = Inl (Exception ''PdfReadError''),
      raw_read = Inr ''junk''\<rparr> = Inl (Exception ''BadZipFile'') \<and>
   file_text_preview_britimp
     \<lparr>suffix_lower = ''.xlsx'',
      excel_default = Inl (Exception ''ValueError''),
      excel_engine = Inl (Exception ''BadZipFile''),
      xlrd_available = True, PdfReader_available = True,
      pdf_pages = Inl (Exception ''PdfReadError''),
      raw_read = Inr ''junk''\<rparr> = Inr []"
  by (simp add: file_text_preview_v3_def file_text_preview_britimp_def read_excel_any_version_def)

text \<open>Where the claim holds: a source that is not a spreadsheet never makes the previewer
  raise, in any of the three versions, and a PDF that cannot be read gives the empty
  text.\<close>

lemma file_text_preview_total_off_spreadsheets:
  assumes "suffix_lower env \<noteq> ''.xlsx''" and "suffix_lower env \<noteq> ''.xls''"
  shows "\<exists>s. file_text_preview_v3 env = Inr s" and "\<exists>s. file_text_preview_britimp env = Inr s"
  using assms by (simp_all add: file_text_preview_v3_def file_text_preview_britimp_def)

lemma file_text_preview_unreadable_pdf:
  assumes "suffix_lower env = ''.pdf''" and "PdfReader_available env"
    and "pdf_pages env = Inl e"
  shows "file_text_preview_v3 env = Inr []" and "file_text_preview_britimp env = Inr []"
  using assms
  by (simp_all add: file_text_preview_v3_def file_text_preview_britimp_def pdf_try_def or_empty_def)

section \<open>The statement extractors: the claims\<close>

lemma py_max_Max: "xs \<noteq> [] \<Longrightarrow> py_max xs = Max (set xs)"
proof -
  assume "xs \<noteq> []"
  then obtain y ys where xs: "xs = y # ys" by (cases xs) auto
  have f: "foldl max y ys = fold max ys y"
    by (simp add: foldl_conv_fold max.commute)
  have "Max (set (y # ys)) = fold max ys y"
    by (rule Max.set_eq_fold)
  with f have "foldl max y ys = Max (set (y # ys))" by (simp only:)
  then show ?thesis by (simp only: py_max_def xs list.sel)
qed

text \<open>
  Claim C4, evaluated on the sheet of the specification.  \<open>parse_ec_efect_xlsx_generic\<close>
  of consolidado_v3.py emits two records, and the TOTAL row emits nothing; but both
  records carry the section name INGRESOS as their reason, not MOTIVO X: the generic
  parser never assigns \<open>motivo\<close>.  (Both amounts are 0, since \<open>"1.000.000"\<close> is not read
  as a number.)  This is so with the receipt cells as text and with the receipt cells as
  the whole floats pandas makes of a numeric column; only the receipt id differs, the
  float being written \<open>123456.0\<close>.  The two parsers that do keep a sticky reason,
  \<open>parse_ec_bultos_atm_xlsx\<close> of consolidado_v3.py and \<open>parse_ec_efect_bco_xlsx\<close> of
  britimp_consolidado_v4.py, emit no record at all on this sheet, for want of a number
  they can read.
\<close>

theorem generic_parser_on_spec_sheet:
  "parse_ec_efect_xlsx_generic spec_ctx spec_sheet =
     [\<lparr>FECHA_OPERACION = ''01/01/2024'', SUCURSAL = ''ASU'', RECIBO = ''123456'', BULTOS = None,
       MONTO = 0, MONEDA = ''PYG'', ING_EGR = ''IN'', CLASIFICACION = ''ATM'',
       FECHA_ARCHIVO = None, MOTIVO_MOVIMIENTO = ''INGRESOS'', AGENCIA = [],
       ARCHIVO_ORIGEN = ''EC_EFECTIVO_ATM.xlsx''\<rparr>,
      \<lparr>FECHA_OPERACION = ''02/01/2024'', SUCURSAL = ''ASU'', RECIBO = ''654321'', BULTOS = None,
       MONTO = 0, MONEDA = ''PYG'', ING_EGR = ''IN'', CLASIFICACION = ''ATM'',
       FECHA_ARCHIVO = None, MOTIVO_MOVIMIENTO = ''INGRESOS'', AGENCIA = [],
       ARCHIVO_ORIGEN = ''EC_EFECTIVO_ATM.xlsx''\<rparr>] \<and>
   parse_ec_efect_xlsx_generic spec_ctx spec_sheet_numeric =
     [\<lparr>FECHA_OPERACION = ''01/01/2024'', SUCURSAL = ''ASU'', RECIBO = ''1234560'', BULTOS = None,
       MONTO = 0, MONEDA = ''PYG'', ING_EGR = ''IN'', CLASIFICACION = ''ATM'',
       FECHA_ARCHIVO = None, MOTIVO_MOVIMIENTO = ''INGRESOS'', AGENCIA = [],
       ARCHIVO_ORIGEN = ''EC_EFECTIVO_ATM.xlsx''\<rparr>,
      \<lparr>FECHA_OPERACION = ''02/01/2024'', SUCURSAL = ''ASU'', RECIBO = ''6543210'', BULTOS = None,
       MONTO = 0, MONEDA = ''PYG'', ING_EGR = ''IN'', CLASIFICACION = ''ATM'',
       FECHA_ARCHIVO = None, MOTIVO_MOVIMIENTO = ''INGRESOS'', AGENCIA = [],
       ARCHIVO_ORIGEN = ''EC_EFECTIVO_ATM.xlsx''\<rparr>] \<and>
   parse_ec_bultos_atm_xlsx spec_ctx spec_sheet = [] \<and>
   parse_ec_bultos_atm_xlsx spec_ctx spec_sheet_numeric = [] \<and>
   parse_ec_efect_bco_xlsx spec_bco_ctx spec_sheet = [] \<and>
   parse_ec_efect_bco_xlsx spec_bco_ctx spec_sheet_numeric = []"
proof -
  have a: "parse_ec_efect_xlsx_generic spec_ctx spec_sheet =
     [\<lparr>FECHA_OPERACION = ''01/01/2024'', SUCURSAL = ''ASU'', RECIBO = ''123456'', BULTOS = None,
       MONTO = 0, MONEDA = ''PYG'', ING_EGR = ''IN'', CLASIFICACION = ''ATM'',
       FECHA_ARCHIVO = None, MOTIVO_MOVIMIENTO = ''INGRESOS'', AGENCIA = [],
       ARCHIVO_ORIGEN = ''EC_EFECTIVO_ATM.xlsx''\<rparr>,
      \<lparr>FECHA_OPERACION = ''02/01/2024'', SUCURSAL = ''ASU'', RECIBO = ''654321'', BULTOS = None,
       MONTO = 0, MONEDA = ''PYG'', ING_EGR = ''IN'', CLASIFICACION = ''ATM'',
       FECHA_ARCHIVO = None, MOTIVO_MOVIMIENTO = ''INGRESOS'', AGENCIA = [],
       ARCHIVO_ORIGEN = ''EC_EFECTIVO_ATM.xlsx''\<rparr>]"
    by code_simp
  have a': "parse_ec_efect_xlsx_generic spec_ctx spec_sheet_numeric =
     [\<lparr>FECHA_OPERACION = ''01/01/2024'', SUCURSAL = ''ASU'', RECIBO = ''1234560'', BULTOS = None,
       MONTO = 0, MONEDA = ''PYG'', ING_EGR = ''IN'', CLASIFICACION = ''ATM'',
       FECHA_ARCHIVO = None, MOTIVO_MOVIMIENTO = ''INGRESOS'', AGENCIA = [],
       ARCHIVO_ORIGEN = ''EC_EFECTIVO_ATM.xlsx''\<rparr>,
      \<lparr>FECHA_OPERACION = ''02/01/2024'', SUCURSAL = ''ASU'', RECIBO = ''6543210'', BULTOS = None,
       MONTO = 0, MONEDA = ''PYG'', ING_EGR = ''IN'', CLASIFICACION = ''ATM'',
       FECHA_ARCHIVO = None, MOTIVO_MOVIMIENTO = ''INGRESOS'', AGENCIA = [],
       ARCHIVO_ORIGEN = ''EC_EFECTIVO_ATM.xlsx''\<rparr>]"
    by code_simp
  have b: "parse_ec_bultos_atm_xlsx spec_ctx spec_sheet = []" by code_simp
  have b': "parse_ec_bultos_atm_xlsx spec_ctx spec_sheet_numeric = []" by code_simp
  have c: "parse_ec_efect_bco_xlsx spec_bco_ctx spec_sheet = []" by code_simp
  have c': "parse_ec_efect_bco_xlsx spec_bco_ctx spec_sheet_numeric = []" by code_simp
  show ?thesis using a a' b b' c c' by blast
qed

text \<open>
  Claim C6 as stated fails on the generic statement parser.  The row below is accepted
  (date, branch, receipt id) and two numbers follow, 5000 and 30: the record's amount is
  30, the last one, and not the maximum 5000.
\<close>

theorem generic_amount_is_not_the_maximum:
  "collect_nums [Str ''5000'', Str ''30''] = [5000, 30] \<and>
   map MONTO (parse_ec_efect_xlsx_generic spec_ctx
     [[Str ''INGRESOS'', NaN, NaN, NaN, NaN],
      [Str ''01/01/2024'', Str ''ASU'', Str ''123456'', Str ''5000'', Str ''30'']]) = [30] \<and>
   Max (set (collect_nums [Str ''5000'', Str ''30''])) = 5000"
proof -
  let ?st = "\<lparr>sect = Some ''INGRESOS'', motivo = None, started = True\<rparr>"
  let ?row = "[Str ''01/01/2024'', Str ''ASU'', Str ''123456'', Str ''5000'', Str ''30'']"
  have d: "map MONTO (generic_data_row spec_ctx ?st ?row) = [30]"
    unfolding generic_data_row_accepted[OF example_row_scans(1) example_row_scans(3)
        example_row_scans(4)]
    by (simp add: collect_nums_example generic_monto_def)
  have b: "map MONTO (parse_ec_efect_xlsx_generic spec_ctx
     [[Str ''INGRESOS'', NaN, NaN, NaN, NaN], ?row]) = [30]"
    unfolding parse_ec_efect_xlsx_generic_def
      scan_rows_two[OF header_row_generic data_row_generic_reached]
    by (rule d)
  have c: "Max (set (collect_nums [Str ''5000'', Str ''30''])) = 5000"
    unfolding collect_nums_example by simp
  show ?thesis using collect_nums_example b c by blast
qed

text \<open>
  Claim C6, amended.  For every data row the generic statement parser of
  consolidado_v3.py accepts (a parseable date, then a branch label, then a receipt id),
  the emitted amount is the last of the numeric values parsed from the remaining cells,
  and 0 when none parses; it is therefore at most their maximum.  Taking the maximum is the
  policy of the bank statement parser of britimp_consolidado_v4.py: for a row it accepts
  (date, branch, and at least one numeric value after the receipt scan) the amount is the
  maximum of those values.
\<close>

theorem generic_amount_is_the_last_number:
  "(find_fecha row = Some (fecha, r1) \<and> find_sucursal r1 = Some (sucursal, r2) \<and>
    find_recibo r2 = Some (recibo, r3) \<longrightarrow>
      map MONTO (generic_data_row ctx st row) =
        [if collect_nums r3 = [] then 0 else last (collect_nums r3)] \<and>
      (collect_nums r3 \<noteq> [] \<longrightarrow>
         list_all (\<lambda>m. MONTO m \<le> Max (set (collect_nums r3))) (generic_data_row ctx st row))) \<and>
   (find_fecha_britimp row = Some (fecha, r1) \<and> find_sucursal r1 = Some (sucursal, r2) \<and>
    find_recibo r2 = Some (recibo, r3) \<and> collect_nums r3 \<noteq> [] \<longrightarrow>
      map IMPORTE (bco_data_row bctx bst row) = [Max (set (collect_nums r3))])"
  by (auto simp: generic_data_row_def generic_monto_def bco_data_row_def Let_def py_max_Max)

theorem generic_amount_witness:
  "find_fecha [Str ''01/01/2024'', Str ''ASU'', Str ''123456'', Str ''5000'', Str ''30''] =
     Some (''01/01/2024'', [Str ''ASU'', Str ''123456'', Str ''5000'', Str ''30'']) \<and>
   find_fecha_britimp [Str ''01/01/2024'', Str ''ASU'', Str ''123456'', Str ''5000'', Str ''30''] =
     Some (''01/01/2024'', [Str ''ASU'', Str ''123456'', Str ''5000'', Str ''30'']) \<and>
   find_sucursal [Str ''ASU'', Str ''123456'', Str ''5000'', Str ''30''] =
     Some (''ASU'', [Str ''123456'', Str ''5000'', Str ''30'']) \<and>
   find_recibo [Str ''123456'', Str ''5000'', Str ''30''] =
     Some (''123456'', [Str ''5000'', Str ''30'']) \<and>
   collect_nums [Str ''5000'', Str ''30''] \<noteq> [] \<and>
   map MONTO (generic_data_row spec_ctx \<lparr>sect = Some ''INGRESOS'', motivo = None, started = True\<rparr>
     [Str ''01/01/2024'', Str ''ASU'', Str ''123456'', Str ''5000'', Str ''30'']) = [30] \<and>
   map IMPORTE (bco_data_row spec_bco_ctx \<lparr>current_section = Some ''INGRESOS'', current_motivo = None\<rparr>
     [Str ''01/01/2024'', Str ''ASU'', Str ''123456'', Str ''5000'', Str ''30'']) = [5000]"
proof -
  let ?row = "[Str ''01/01/2024'', Str ''ASU'', Str ''123456'', Str ''5000'', Str ''30'']"
  let ?r1 = "[Str ''ASU'', Str ''123456'', Str ''5000'', Str ''30'']"
  let ?r2 = "[Str ''123456'', Str ''5000'', Str ''30'']"
  let ?r3 = "[Str ''5000'', Str ''30'']"
  let ?st = "\<lparr>sect = Some ''INGRESOS'', motivo = None, started = True\<rparr>"
  let ?bst = "\<lparr>current_section = Some ''INGRESOS'', current_motivo = None\<rparr>"
  note f = example_row_scans(1)[of "Str ''5000''" "Str ''30''"]
  note fb = example_row_scans(2)[of "Str ''5000''" "Str ''30''"]
  note s = example_row_scans(3)[of "Str ''5000''" "Str ''30''"]
  note r = example_row_scans(4)[of "Str ''5000''" "Str ''30''"]
  note n = collect_nums_example
  note t = generic_amount_is_the_last_number[of ?row "''01/01/2024''" ?r1 "''ASU''" ?r2
      "''123456''" ?r3 spec_ctx ?st spec_bco_ctx ?bst]
  from t f s r have "map MONTO (generic_data_row spec_ctx ?st ?row) =
      [if collect_nums ?r3 = [] then 0 else last (collect_nums ?r3)]" by blast
  then have m: "map MONTO (generic_data_row spec_ctx ?st ?row) = [30]" by (simp add: n)
  have ne: "collect_nums ?r3 \<noteq> []" by (simp add: n)
  from t fb s r ne have "map IMPORTE (bco_data_row spec_bco_ctx ?bst ?row) =
      [Max (set (collect_nums ?r3))]" by blast
  then have i: "map IMPORTE (bco_data_row spec_bco_ctx ?bst ?row) = [5000]" by (simp add: n)
  show ?thesis using f fb s r ne m i by blast
qed

text \<open>
  Claim C7 as stated fails on the bundle parser.  The row below has a date, a branch and a
  receipt id followed by two numbers only, 5 and 1000: it is not skipped.  The missing
  numbers count as zero and one PYG record comes out, with 5 bundles and amount 1000.
\<close>

theorem bultos_row_with_two_numbers_is_emitted:
  "collect_nums [Str ''5'', Str ''1000''] = [5, 1000] \<and>
   map (\<lambda>m. (MONEDA m, BULTOS m, MONTO m)) (parse_ec_bultos_atm_xlsx spec_ctx
     [[Str ''INGRESOS'', NaN, NaN, NaN, NaN],
      [Str ''01/01/2024'', Str ''ASU'', Str ''123456'', Str ''5'', Str ''1000'']]) =
     [(''PYG'', Some 5, 1000)]"
proof -
  let ?st = "\<lparr>sect = Some ''INGRESOS'', motivo = None, started = True\<rparr>"
  let ?row = "[Str ''01/01/2024'', Str ''ASU'', Str ''123456'', Str ''5'', Str ''1000'']"
  have p: "pad4 [5, 1000] = [5, 1000, 0, 0]" by (simp add: pad4_def numeral_eq_Suc)
  have d: "map (\<lambda>m. (MONEDA m, BULTOS m, MONTO m)) (bultos_data_row spec_ctx ?st ?row) =
             [(''PYG'', Some 5, 1000)]"
    unfolding bultos_data_row_accepted[OF example_row_scans(1) example_row_scans(3)
        example_row_scans(4)]
    by (simp add: collect_nums_example2 bultos_emit_def p add_row_def)
  have b: "map (\<lambda>m. (MONEDA m, BULTOS m, MONTO m)) (parse_ec_bultos_atm_xlsx spec_ctx
     [[Str ''INGRESOS'', NaN, NaN, NaN, NaN], ?row]) = [(''PYG'', Some 5, 1000)]"
    unfolding parse_ec_bultos_atm_xlsx_def
      scan_rows_two[OF header_row_bultos data_row_bultos_reached]
    by (rule d)
  show ?thesis using collect_nums_example2 b by blast
qed

text \<open>
  Claim C7, amended.  For every data row the bundle parser accepts (a parseable date,
  then a branch label, then a receipt id), the numeric values parsed from the remaining
  cells are padded with zeros to four and the first four are read as Guarani bundle count,
  Guarani amount, Dollar bundle count and Dollar amount.  A PYG record is emitted exactly
  when the Guarani pair is not zero and a USD record exactly when the Dollar pair is not
  zero, the PYG record first: no record, one or two.  A row with fewer than four numbers
  is therefore not skipped as such; it emits nothing only when the pairs it leaves are
  zero, as when no number follows the receipt id.  A row with no date, no branch or no
  receipt id emits nothing.
\<close>

theorem bultos_currency_split:
  "(find_fecha row = Some (fecha, r1) \<and> find_sucursal r1 = Some (sucursal, r2) \<and>
    find_recibo r2 = Some (recibo, r3) \<longrightarrow>
      bultos_data_row ctx st row =
        (if pad4 (collect_nums r3) ! 0 \<noteq> 0 \<or> pad4 (collect_nums r3) ! 1 \<noteq> 0
         then [add_row ctx st fecha sucursal recibo ''PYG''
                 (pad4 (collect_nums r3) ! 0) (pad4 (collect_nums r3) ! 1)]
         else []) @
        (if pad4 (collect_nums r3) ! 2 \<noteq> 0 \<or> pad4 (collect_nums r3) ! 3 \<noteq> 0
         then [add_row ctx st fecha sucursal recibo ''USD''
                 (pad4 (collect_nums r3) ! 2) (pad4 (collect_nums r3) ! 3)]
         else []) \<and>
      (collect_nums r3 = [] \<longrightarrow> bultos_data_row ctx st row = [])) \<and>
   (find_fecha row = None \<longrightarrow> bultos_data_row ctx st row = []) \<and>
   (find_fecha row = Some (fecha, r1) \<and> find_sucursal r1 = None \<longrightarrow>
      bultos_data_row ctx st row = []) \<and>
   (find_fecha row = Some (fecha, r1) \<and> find_sucursal r1 = Some (sucursal, r2) \<and>
    find_recibo r2 = None \<longrightarrow> bultos_data_row ctx st row = [])"
proof -
  have a: "bultos_emit ctx st fecha sucursal recibo nums =
        (if pad4 nums ! 0 \<noteq> 0 \<or> pad4 nums ! 1 \<noteq> 0
         then [add_row ctx st fecha sucursal recibo ''PYG'' (pad4 nums ! 0) (pad4 nums ! 1)]
         else []) @
        (if pad4 nums ! 2 \<noteq> 0 \<or> pad4 nums ! 3 \<noteq> 0
         then [add_row ctx st fecha sucursal recibo ''USD'' (pad4 nums ! 2) (pad4 nums ! 3)]
         else [])" for nums
    by (simp add: bultos_emit_def Let_def)
  have b: "bultos_emit ctx st fecha sucursal recibo [] = []"
    by (simp add: bultos_emit_def Let_def pad4_empty)
  show ?thesis
    using a[of "collect_nums r3"] b
    by (auto simp: bultos_data_row_accepted bultos_data_row_rejected)
qed

theorem bultos_currency_split_witness:
  "find_fecha [Str ''01/01/2024'', Str ''ASU'', Str ''123456'', Str ''5'', Str ''1000''] =
     Some (''01/01/2024'', [Str ''ASU'', Str ''123456'', Str ''5'', Str ''1000'']) \<and>
   find_sucursal [Str ''ASU'', Str ''123456'', Str ''5'', Str ''1000''] =
     Some (''ASU'', [Str ''123456'', Str ''5'', Str ''1000'']) \<and>
   find_recibo [Str ''123456'', Str ''5'', Str ''1000''] = Some (''123456'', [Str ''5'', Str ''1000'']) \<and>
   pad4 (collect_nums [Str ''5'', Str ''1000'']) = [5, 1000, 0, 0] \<and>
   bultos_data_row spec_ctx \<lparr>sect = Some ''INGRESOS'', motivo = None, started = True\<rparr>
     [Str ''01/01/2024'', Str ''ASU'', Str ''123456'', Str ''5'', Str ''1000''] =
     [add_row spec_ctx \<lparr>sect = Some ''INGRESOS'', motivo = None, started = True\<rparr>
        ''01/01/2024'' ''ASU'' ''123456'' ''PYG'' 5 1000] \<and>
   find_fecha [NaN, NaN] = None \<and>
   bultos_data_row spec_ctx \<lparr>sect = Some ''INGRESOS'', motivo = None, started = True\<rparr> [NaN, NaN] = []"
proof -
  let ?row = "[Str ''01/01/2024'', Str ''ASU'', Str ''123456'', Str ''5'', Str ''1000'']"
  let ?r1 = "[Str ''ASU'', Str ''123456'', Str ''5'', Str ''1000'']"
  let ?r2 = "[Str ''123456'', Str ''5'', Str ''1000'']"
  let ?r3 = "[Str ''5'', Str ''1000'']"
  let ?st = "\<lparr>sect = Some ''INGRESOS'', motivo = None, started = True\<rparr>"
  note f = example_row_scans(1)[of "Str ''5''" "Str ''1000''"]
  note s = example_row_scans(3)[of "Str ''5''" "Str ''1000''"]
  note r = example_row_scans(4)[of "Str ''5''" "Str ''1000''"]
  have p: "pad4 (collect_nums ?r3) = [5, 1000, 0, 0]"
    by (simp add: collect_nums_example2 pad4_def numeral_eq_Suc)
  note t = bultos_currency_split[of ?row "''01/01/2024''" ?r1 "''ASU''" ?r2 "''123456''" ?r3
      spec_ctx ?st]
  from t f s r have "bultos_data_row spec_ctx ?st ?row =
        (if pad4 (collect_nums ?r3) ! 0 \<noteq> 0 \<or> pad4 (collect_nums ?r3) ! 1 \<noteq> 0
         then [add_row spec_ctx ?st ''01/01/2024'' ''ASU'' ''123456'' ''PYG''
                 (pad4 (collect_nums ?r3) ! 0) (pad4 (collect_nums ?r3) ! 1)]
         else []) @
        (if pad4 (collect_nums ?r3) ! 2 \<noteq> 0 \<or> pad4 (collect_nums ?r3) ! 3 \<noteq> 0
         then [add_row spec_ctx ?st ''01/01/2024'' ''ASU'' ''123456'' ''USD''
                 (pad4 (collect_nums ?r3) ! 2) (pad4 (collect_nums ?r3) ! 3)]
         else [])" by blast
  then have d: "bultos_data_row spec_ctx ?st ?row =
      [add_row spec_ctx ?st ''01/01/2024'' ''ASU'' ''123456'' ''PYG'' 5 1000]"
    unfolding p by simp
  have n: "find_fecha [NaN, NaN] = None" by (simp add: to_ddmmyyyy_def)
  note t2 = bultos_currency_split[of "[NaN, NaN]" "[]" "[]" "[]" "[]" "[]" "[]" spec_ctx ?st]
  from t2 n have e: "bultos_data_row spec_ctx ?st [NaN, NaN] = []" by blast
  show ?thesis using f s r p d n e by blast
qed

end
